theory Spec2Isabelle
  imports Main "HOL-Library.Char_ord" "HOL-Library.List_Lexorder" "HOL-Library.AList"
begin

text \<open>
  A shallow embedding of the chat server: the mongoose models, the socket.io handlers of
  server/socket/index.js and server/server.js, and the REST controller and routes for
  messages. A handler is a function from the state the handlers share to the new state
  and the list of what the handler sent out; a store operation that rejects is an error
  value, and the handler's \<open>try\<close>/\<open>catch\<close> is the case distinction on it. The handlers
  are taken one at a time, each running to its end.
\<close>

section \<open>Data model (server/models)\<close>

text \<open>
  Identity and message ids are MongoDB ObjectIds. A stored id (\<open>oid\<close>) is written as
  its string form \<open>String(id)\<close>, 24 hexadecimal digits in lower case. An id in a payload
  is any string; mongoose casts it to an ObjectId where the schema says so. A connection
  is named by its \<open>socket.id\<close>.
\<close>

type_synonym oid = string
type_synonym sock = string

text \<open>\<open>attachmentSchema\<close>: \<open>url\<close> is required, the other fields are optional.\<close>

record attachment =
  url :: "string option"
  filename :: "string option"
  contentType :: "string option"
  att_size :: "nat option"

text \<open>\<open>reactionSchema\<close>: \<open>{emoji, users}\<close>, \<open>emoji\<close> required.\<close>

record reaction =
  emoji :: string
  users :: "oid list"

text \<open>
  \<open>messageSchema\<close>. \<open>deliveredBy\<close> is \<open>meta.deliveredBy\<close>; \<open>meta\<close> is a Mixed path, so
  its entries are kept as they come and are not cast. \<open>createdAt\<close> is the timestamp
  that \<open>timestamps: true\<close> adds, in milliseconds.
\<close>

record message =
  msg_id :: oid
  roomId :: string
  senderId :: oid
  senderName :: string
  recipients :: "oid list"
  content :: string
  attachments :: "attachment list"
  readBy :: "oid list"
  reactions :: "reaction list"
  deliveredBy :: "string list"
  createdAt :: nat

text \<open>\<open>userSchema\<close>.\<close>

record user =
  user_id :: oid
  username :: string
  isOnline :: bool
  socketId :: "sock option"

section \<open>Events and effects\<close>

text \<open>The payload of \<open>message:send\<close> and \<open>send_message\<close>; every field may be absent.\<close>

record send_payload =
  p_roomId :: "string option"
  p_senderId :: "string option"
  p_senderName :: "string option"
  p_recipients :: "string list option"
  p_content :: "string option"
  p_attachments :: "attachment list option"

text \<open>The payload of \<open>private_message\<close>; the addressee \<open>toUserId\<close> is taken to be present.\<close>

record private_payload =
  pm_toUserId :: string
  pm_content :: "string option"
  pm_senderId :: "string option"
  pm_senderName :: "string option"
  pm_attachments :: "attachment list option"

text \<open>The payload of \<open>user:join\<close>.\<close>

record join_payload =
  j_username :: "string option"
  j_userId :: "string option"

text \<open>The payload of \<open>message:read\<close>; the handler tests both fields for absence.\<close>

record read_payload =
  r_messageId :: "string option"
  r_userId :: "string option"

text \<open>
  The payloads of \<open>message:react\<close> (and of the REST route) and of \<open>message:delivered\<close>,
  whose fields are taken to be present.
\<close>

record react_payload =
  rc_messageId :: string
  rc_emoji :: string
  rc_userId :: string

record delivered_payload =
  d_messageId :: string
  d_userId :: string

datatype error = ValidationError | CastError | StorageError | TypeError

text \<open>
  Where an emit goes: \<open>io.emit\<close>, \<open>io.to(room).emit\<close>, \<open>socket.emit\<close> and
  \<open>socket.broadcast.emit\<close>.
\<close>

datatype target =
  Everyone
| ToRoom string
| ToSocket sock
| Others sock

text \<open>The \<open>data\<close> object of a notification, one constructor per call site.\<close>

datatype notification_data =
  NoData
| RoomData string
| NewMessageData string "string option"
| PrivateData "string option" string

datatype outdata =
  MessageDoc message
| History "message list"
| UsersOnline "(oid \<times> string \<times> bool) list"
| Notification string string notification_data nat
| ReadReceipt string string
| ReactionState string "reaction list"
| DeliveredMark string string
| RawDelivered delivered_payload

text \<open>
  What a handler sends out: an event emitted to a target, or a call of the
  acknowledgement callback: \<open>Ack (Inl err)\<close> is \<open>callback(err)\<close>, \<open>Ack (Inr m)\<close> is
  \<open>callback(null, {status: "delivered", message: m})\<close>.
\<close>

datatype effect =
  Emit target string outdata
| Ack "error + message"

text \<open>
  The state the handlers share: the two collections, the \<open>onlineUsers\<close> map of
  \<open>socketHandler\<close> (a JavaScript \<open>Map\<close>, which keeps insertion order), the room
  membership kept by the socket.io adapter, and the connected sockets of the namespace.
  \<open>faults\<close> is the outcome of the coming store operations, one entry for each
  (\<open>True\<close>: the operation rejects); an empty list means that none fails. \<open>now\<close> is the
  clock, \<open>next_oid\<close> the source of fresh ids, \<open>writes\<close> counts the writes that reached the
  store.
\<close>

record world =
  users_db :: "user list"
  messages_db :: "message list"
  onlineUsers :: "(sock \<times> user) list"
  rooms :: "string \<Rightarrow> sock set"
  sockets :: "sock set"
  faults :: "bool list"
  now :: nat
  next_oid :: nat
  writes :: nat

section \<open>JavaScript helpers\<close>

text \<open>Truthiness of an optional string: \<open>undefined\<close> and \<open>""\<close> are falsy.\<close>

fun truthy :: "string option \<Rightarrow> bool" where
  "truthy None = False"
| "truthy (Some s) = (s \<noteq> [])"

text \<open>\<open>x || d\<close> on an optional string.\<close>

fun or_default :: "string option \<Rightarrow> string \<Rightarrow> string" where
  "or_default None d = d"
| "or_default (Some s) d = (if s = [] then d else s)"

text \<open>An optional string inside a template literal.\<close>

fun js_str :: "string option \<Rightarrow> string" where
  "js_str None = ''undefined''"
| "js_str (Some s) = s"

definition startsWith :: "string \<Rightarrow> string \<Rightarrow> bool" where
  "startsWith s p = (take (length p) s = p)"

text \<open>
  \<open>Array.prototype.sort()\<close> without a comparator: strings in the order of their code
  units, stable, \<open>undefined\<close> last.
\<close>

definition js_sort :: "string option list \<Rightarrow> string option list" where
  "js_sort xs = map Some (sort [y. Some y \<leftarrow> xs]) @ [x \<leftarrow> xs. x = None]"

text \<open>\<open>Array.prototype.join(sep)\<close>: \<open>undefined\<close> is rendered as the empty string.\<close>

fun js_join :: "string \<Rightarrow> string option list \<Rightarrow> string" where
  "js_join sep [] = []"
| "js_join sep [x] = (case x of None \<Rightarrow> [] | Some s \<Rightarrow> s)"
| "js_join sep (x # y # ys) =
     (case x of None \<Rightarrow> [] | Some s \<Rightarrow> s) @ sep @ js_join sep (y # ys)"

text \<open>
  \<open>String.prototype.trim\<close>, which the schema applies to \<open>content\<close>: the white space
  and line terminators among the characters of a \<open>string\<close> here (tab, line feed,
  vertical tab, form feed, carriage return, space, no-break space).
\<close>

definition is_space :: "char \<Rightarrow> bool" where
  "is_space c = (of_char c \<in> {9, 10, 11, 12, 13, 32, 160 :: nat})"

definition js_trim :: "string \<Rightarrow> string" where
  "js_trim s = rev (dropWhile is_space (rev (dropWhile is_space s)))"

text \<open>The room of an identity, \<open>`user:${id}`\<close>.\<close>

definition user_room :: "string \<Rightarrow> string" where
  "user_room uid = ''user:'' @ uid"

section \<open>ObjectIds\<close>

text \<open>
  The cast to ObjectId. A string of 24 hexadecimal digits, in either case, is cast to
  the id it spells, whose string form is in lower case; every other string is rejected
  with a CastError. (Drivers older than bson 6 also read a string of 12 characters as
  the 12 bytes of an id; no statement below is about such a string.)
\<close>

definition is_hex_digit :: "char \<Rightarrow> bool" where
  "is_hex_digit c = (c \<in> set ''0123456789abcdefABCDEF'')"

definition lower_hex :: "char \<Rightarrow> char" where
  "lower_hex c = (case map_of (zip ''ABCDEF'' ''abcdef'') c of None \<Rightarrow> c | Some d \<Rightarrow> d)"

definition cast_oid :: "string \<Rightarrow> oid option" where
  "cast_oid s =
     (if length s = 24 \<and> list_all is_hex_digit s then Some (map lower_hex s) else None)"

text \<open>The cast of an optional id (\<open>undefined\<close> is no id) and of an array of ids.\<close>

fun cast_opt :: "string option \<Rightarrow> oid option" where
  "cast_opt None = None"
| "cast_opt (Some s) = cast_oid s"

fun cast_all :: "string list \<Rightarrow> oid list option" where
  "cast_all [] = Some []"
| "cast_all (s # ss) =
     (case cast_oid s of
        None \<Rightarrow> None
      | Some c \<Rightarrow> (case cast_all ss of None \<Rightarrow> None | Some cs \<Rightarrow> Some (c # cs)))"

section \<open>The private room key (server/socket/index.js, private_message)\<close>

text \<open>\<open>`private:${[senderId, toUserId].sort().join(":")}`\<close>\<close>

definition private_room_key :: "string option \<Rightarrow> string option \<Rightarrow> string" where
  "private_room_key sender_id to_user_id =
     ''private:'' @ js_join '':'' (js_sort [sender_id, to_user_id])"

section \<open>The store (the mongoose models Message and User)\<close>

text \<open>
  Every operation on the store is awaited and may reject. An operation that reaches the
  store takes the next entry of \<open>faults\<close>; validation against the schema happens before
  that and reaches the store only when it passes.
\<close>

definition db_attempt :: "world \<Rightarrow> bool \<times> world" where
  "db_attempt w =
     (case faults w of
        [] \<Rightarrow> (True, w)
      | f # fs \<Rightarrow> (\<not> f, w\<lparr>faults := fs\<rparr>))"

text \<open>
  A fresh ObjectId. The driver builds it from a timestamp, a random value and a counter;
  here it is the counter \<open>next_oid\<close> written with 24 hexadecimal digits.
\<close>

definition hex_digit :: "nat \<Rightarrow> char" where
  "hex_digit d = ''0123456789abcdef'' ! (d mod 16)"

fun hex_pad :: "nat \<Rightarrow> nat \<Rightarrow> string" where
  "hex_pad 0 n = []"
| "hex_pad (Suc k) n = hex_pad k (n div 16) @ [hex_digit n]"

definition new_oid :: "nat \<Rightarrow> oid" where
  "new_oid n = hex_pad 24 n"

text \<open>
  The validators of \<open>messageSchema\<close>: \<open>senderName\<close> is required (a required string may
  not be empty), and so is the \<open>url\<close> of every attachment. \<open>content\<close> and \<open>attachments\<close>
  are not required.
\<close>

definition schema_valid :: "string option \<Rightarrow> attachment list \<Rightarrow> bool" where
  "schema_valid sname atts = (truthy sname \<and> list_all (\<lambda>a. truthy (url a)) atts)"

text \<open>
  \<open>Message.create({roomId, senderId, senderName, recipients, content, attachments})\<close>.
  \<open>senderId\<close> is required and cast to ObjectId, and every recipient is cast; a failed
  cast fails validation, like a missing required field, and nothing reaches the store.
  The schema trims \<open>content\<close> and defaults it to \<open>""\<close>, defaults \<open>attachments\<close> to
  \<open>[]\<close>, and starts \<open>readBy\<close>, \<open>reactions\<close> and \<open>meta.deliveredBy\<close> empty.
\<close>

definition Message_create ::
  "string \<Rightarrow> string option \<Rightarrow> string option \<Rightarrow> string list \<Rightarrow> string option \<Rightarrow>
   attachment list option \<Rightarrow> world \<Rightarrow> (error + message) \<times> world" where
  "Message_create rid sid sname recips cont atts w =
     (case (cast_opt sid, cast_all recips) of
        (Some sender, Some rs) \<Rightarrow>
          if schema_valid sname (case atts of None \<Rightarrow> [] | Some a \<Rightarrow> a) then
            (case db_attempt w of
               (ok, w1) \<Rightarrow>
                 if ok then
                   (let doc = \<lparr>msg_id = new_oid (next_oid w1), roomId = rid, senderId = sender,
                                senderName = js_str sname, recipients = rs,
                                content = js_trim (or_default cont []),
                                attachments = (case atts of None \<Rightarrow> [] | Some a \<Rightarrow> a),
                                readBy = [], reactions = [], deliveredBy = [],
                                createdAt = now w1\<rparr>
                    in (Inr doc, w1\<lparr>messages_db := messages_db w1 @ [doc],
                                      next_oid := Suc (next_oid w1),
                                      writes := Suc (writes w1)\<rparr>))
                 else (Inl StorageError, w1))
          else (Inl ValidationError, w)
      | _ \<Rightarrow> (Inl ValidationError, w))"

text \<open>
  \<open>Message.findById(id)\<close>: the id is cast (a CastError rejects the query before it
  reaches the store); the result is the document, or \<open>null\<close>.
\<close>

definition Message_findById :: "string \<Rightarrow> world \<Rightarrow> (error + message option) \<times> world" where
  "Message_findById mid w =
     (case cast_oid mid of
        None \<Rightarrow> (Inl CastError, w)
      | Some c \<Rightarrow>
          (case db_attempt w of
             (ok, w1) \<Rightarrow>
               if ok then (Inr (find (\<lambda>m. msg_id m = c) (messages_db w1)), w1)
               else (Inl StorageError, w1)))"

text \<open>
  \<open>msg.save()\<close> after a change that mongoose tracks (a push to or a splice of an
  array of the schema): the document replaces the stored one of the same id.
\<close>

definition message_save :: "message \<Rightarrow> world \<Rightarrow> (error + message) \<times> world" where
  "message_save doc w =
     (case db_attempt w of
        (ok, w1) \<Rightarrow>
          if ok then
            (Inr doc, w1\<lparr>messages_db :=
                              map (\<lambda>m. if msg_id m = msg_id doc then doc else m) (messages_db w1),
                            writes := Suc (writes w1)\<rparr>)
          else (Inl StorageError, w1))"

text \<open>
  \<open>msg.save()\<close> when no tracked path has changed: mongoose sends no update and only
  checks, with one query, that the document is still there. A change inside the Mixed
  path \<open>meta\<close> is not tracked unless \<open>markModified\<close> is called.
\<close>

definition save_untracked :: "message \<Rightarrow> world \<Rightarrow> (error + message) \<times> world" where
  "save_untracked doc w =
     (case db_attempt w of
        (ok, w1) \<Rightarrow> if ok then (Inr doc, w1) else (Inl StorageError, w1))"

text \<open>
  \<open>Message.find({roomId}).sort({createdAt: 1}).limit(100)\<close>: the documents of the room,
  sorted by \<open>createdAt\<close> ascending, then the first 100 of them. Documents with the same
  \<open>createdAt\<close> keep the order in which they were inserted.
\<close>

definition Message_find :: "string \<Rightarrow> message list \<Rightarrow> message list" where
  "Message_find rid msgs = filter (\<lambda>m. roomId m = rid) msgs"

definition sort_createdAt_asc :: "message list \<Rightarrow> message list" where
  "sort_createdAt_asc msgs = sort_key createdAt msgs"

definition limit :: "nat \<Rightarrow> message list \<Rightarrow> message list" where
  "limit n msgs = take n msgs"

definition history_query :: "string \<Rightarrow> message list \<Rightarrow> message list" where
  "history_query rid msgs = limit 100 (sort_createdAt_asc (Message_find rid msgs))"

definition fetch_history :: "string \<Rightarrow> world \<Rightarrow> (error + message list) \<times> world" where
  "fetch_history rid w =
     (case db_attempt w of
        (ok, w1) \<Rightarrow>
          if ok then (Inr (history_query rid (messages_db w1)), w1)
          else (Inl StorageError, w1))"

text \<open>\<open>User.findById\<close>, which casts the id, and \<open>User.findOne({username})\<close>.\<close>

definition User_findById :: "string \<Rightarrow> world \<Rightarrow> (error + user option) \<times> world" where
  "User_findById uid w =
     (case cast_oid uid of
        None \<Rightarrow> (Inl CastError, w)
      | Some c \<Rightarrow>
          (case db_attempt w of
             (ok, w1) \<Rightarrow>
               if ok then (Inr (find (\<lambda>u. user_id u = c) (users_db w1)), w1)
               else (Inl StorageError, w1)))"

definition User_findOne :: "string \<Rightarrow> world \<Rightarrow> (error + user option) \<times> world" where
  "User_findOne uname w =
     (case db_attempt w of
        (ok, w1) \<Rightarrow>
          if ok then (Inr (find (\<lambda>u. username u = uname) (users_db w1)), w1)
          else (Inl StorageError, w1))"

text \<open>\<open>username\<close> is required and unique.\<close>

definition User_create :: "string \<Rightarrow> sock \<Rightarrow> world \<Rightarrow> (error + user) \<times> world" where
  "User_create uname sid w =
     (if uname = [] then (Inl ValidationError, w)
      else
        (case db_attempt w of
           (ok, w1) \<Rightarrow>
             if ok \<and> find (\<lambda>u. username u = uname) (users_db w1) = None then
               (let u = \<lparr>user_id = new_oid (next_oid w1), username = uname, isOnline = True,
                          socketId = Some sid\<rparr>
                in (Inr u, w1\<lparr>users_db := users_db w1 @ [u],
                                next_oid := Suc (next_oid w1),
                                writes := Suc (writes w1)\<rparr>))
             else (Inl StorageError, w1)))"

text \<open>
  \<open>user.save()\<close>: an update is sent only when a field was set to a value other than the
  stored one; otherwise mongoose only checks that the document is still there.
\<close>

definition user_save :: "user \<Rightarrow> world \<Rightarrow> (error + user) \<times> world" where
  "user_save doc w =
     (case db_attempt w of
        (ok, w1) \<Rightarrow>
          if ok then
            (Inr doc,
             if find (\<lambda>u. user_id u = user_id doc) (users_db w1) = Some doc then w1
             else w1\<lparr>users_db :=
                        map (\<lambda>u. if user_id u = user_id doc then doc else u) (users_db w1),
                      writes := Suc (writes w1)\<rparr>)
          else (Inl StorageError, w1))"

section \<open>Delivery\<close>

text \<open>
  The connections an emit reaches. A room's members are the connections that joined it
  and have not left.
\<close>

fun receivers :: "world \<Rightarrow> target \<Rightarrow> sock set" where
  "receivers w Everyone = sockets w"
| "receivers w (ToRoom r) = rooms w r"
| "receivers w (ToSocket s) = {s}"
| "receivers w (Others s) = sockets w - {s}"

text \<open>The connections that a list of effects sends the event \<open>ev\<close> to.\<close>

fun delivered :: "world \<Rightarrow> string \<Rightarrow> effect list \<Rightarrow> sock set" where
  "delivered w ev [] = {}"
| "delivered w ev (Emit t e d # fx) =
     (if e = ev then receivers w t else {}) \<union> delivered w ev fx"
| "delivered w ev (Ack r # fx) = delivered w ev fx"

text \<open>The acknowledgements among the effects, in order.\<close>

fun acks :: "effect list \<Rightarrow> (error + message) list" where
  "acks [] = []"
| "acks (Emit t e d # fx) = acks fx"
| "acks (Ack r # fx) = r # acks fx"

section \<open>The socket handlers (server/socket/index.js)\<close>

text \<open>
  A handler takes the connection it runs for (\<open>sid\<close>), the payload and the state, and
  returns the new state and what it sent out. A rejected store operation throws; the
  handler's \<open>catch\<close> logs it, so that what was sent before stays sent and nothing
  follows.
\<close>

text \<open>\<open>sendNotification(type, message, data = {})\<close>: \<open>io.emit("notification", ...)\<close>.\<close>

definition sendNotification :: "string \<Rightarrow> string \<Rightarrow> notification_data \<Rightarrow> world \<Rightarrow> effect" where
  "sendNotification ty text d w = Emit Everyone ''notification'' (Notification ty text d (now w))"

text \<open>\<open>broadcastOnlineUsers()\<close>: one entry for each value of the \<open>onlineUsers\<close> map.\<close>

definition online_snapshot :: "world \<Rightarrow> (oid \<times> string \<times> bool) list" where
  "online_snapshot w = map (\<lambda>(s, u). (user_id u, username u, isOnline u)) (onlineUsers w)"

definition broadcastOnlineUsers :: "world \<Rightarrow> effect" where
  "broadcastOnlineUsers w = Emit Everyone ''users:online'' (UsersOnline (online_snapshot w))"

subsection \<open>user:join\<close>

text \<open>\<open>(await User.findOne({username})) || (await User.create({username, isOnline: true, socketId}))\<close>\<close>

definition find_or_create_user :: "string \<Rightarrow> sock \<Rightarrow> world \<Rightarrow> (error + user option) \<times> world" where
  "find_or_create_user uname sid w =
     (case User_findOne uname w of
        (Inl e, w1) \<Rightarrow> (Inl e, w1)
      | (Inr (Some u), w1) \<Rightarrow> (Inr (Some u), w1)
      | (Inr None, w1) \<Rightarrow>
          (case User_create uname sid w1 of
             (Inl e, w2) \<Rightarrow> (Inl e, w2)
           | (Inr u, w2) \<Rightarrow> (Inr (Some u), w2)))"

text \<open>
  The body of \<open>if (user) {...}\<close>: mark the user online on this socket, save,
  \<open>onlineUsers.set(socket.id, user)\<close>, \<open>socket.join(`user:${user._id}`)\<close>. \<open>Map.set\<close> replaces
  the value of a key that is present and appends a new key.
\<close>

definition bind_user :: "sock \<Rightarrow> user \<Rightarrow> world \<Rightarrow> (error + user) \<times> world" where
  "bind_user sid u w =
     (case user_save (u\<lparr>isOnline := True, socketId := Some sid\<rparr>) w of
        (Inl e, w1) \<Rightarrow> (Inl e, w1)
      | (Inr u', w1) \<Rightarrow>
          (Inr u', w1\<lparr>onlineUsers := AList.update sid u' (onlineUsers w1),
                       rooms := (rooms w1)(user_room (user_id u') :=
                                  insert sid (rooms w1 (user_room (user_id u'))))\<rparr>))"

text \<open>\<open>`${user?.username || "A user"} joined the chat`\<close>\<close>

fun display_name :: "user option \<Rightarrow> string" where
  "display_name None = ''A user''"
| "display_name (Some u) = (if username u = [] then ''A user'' else username u)"

text \<open>
  The first part of the handler: \<open>if (userId) user = await User.findById(userId)\<close>, then
  \<open>if (!user && username) user = ...\<close>.
\<close>

definition resolve_user ::
  "sock \<Rightarrow> join_payload option \<Rightarrow> world \<Rightarrow> (error + user option) \<times> world" where
  "resolve_user sid userData w =
     (let uname = (case userData of None \<Rightarrow> None | Some d \<Rightarrow> j_username d);
          uid = (case userData of None \<Rightarrow> None | Some d \<Rightarrow> j_userId d)
      in case (if truthy uid then User_findById (js_str uid) w else (Inr None, w)) of
           (Inl e, w1) \<Rightarrow> (Inl e, w1)
         | (Inr found, w1) \<Rightarrow>
             if found = None \<and> truthy uname
             then find_or_create_user (js_str uname) sid w1
             else (Inr found, w1))"

text \<open>\<open>if (user) {...}\<close>\<close>

definition bind_if_found ::
  "sock \<Rightarrow> user option \<Rightarrow> world \<Rightarrow> (error + user option) \<times> world" where
  "bind_if_found sid found w =
     (case found of
        None \<Rightarrow> (Inr None, w)
      | Some u \<Rightarrow>
          (case bind_user sid u w of
             (Inl e, w1) \<Rightarrow> (Inl e, w1)
           | (Inr u', w1) \<Rightarrow> (Inr (Some u'), w1)))"

definition user_join :: "sock \<Rightarrow> join_payload option \<Rightarrow> world \<Rightarrow> world \<times> effect list" where
  "user_join sid userData w =
     (case resolve_user sid userData w of
        (Inl e, w2) \<Rightarrow> (w2, [])
      | (Inr found, w2) \<Rightarrow>
          (case bind_if_found sid found w2 of
             (Inl e, w3) \<Rightarrow> (w3, [])
           | (Inr bound, w3) \<Rightarrow>
               (case fetch_history ''global'' w3 of
                  (Inl e, w4) \<Rightarrow> (w4, [broadcastOnlineUsers w3])
                | (Inr history, w4) \<Rightarrow>
                    (w4, [broadcastOnlineUsers w3,
                          Emit (ToSocket sid) ''messages:history'' (History history),
                          sendNotification ''user-join''
                            (display_name bound @ '' joined the chat'') NoData w4]))))"

subsection \<open>room:join\<close>

text \<open>This handler has no \<open>try\<close>: a rejected fetch leaves the socket in the room and sends nothing.\<close>

definition room_join :: "sock \<Rightarrow> string option \<Rightarrow> world \<Rightarrow> world \<times> effect list" where
  "room_join sid rid w =
     (if truthy rid then
        (let r = js_str rid;
             w1 = w\<lparr>rooms := (rooms w)(r := insert sid (rooms w r))\<rparr>
         in case fetch_history r w1 of
              (Inl e, w2) \<Rightarrow> (w2, [])
            | (Inr history, w2) \<Rightarrow>
                (w2, [Emit (ToSocket sid) ''messages:history'' (History history),
                      sendNotification ''room-join'' (''A user joined room '' @ r) (RoomData r) w2]))
      else (w, []))"

subsection \<open>message:send\<close>

text \<open>
  The \<open>Message.create\<close> call that both send handlers make:
  \<open>roomId: payload.roomId || "global"\<close>, \<open>recipients: payload.recipients || []\<close>,
  \<open>content: payload.content || ""\<close>, \<open>attachments: payload.attachments || []\<close>.
\<close>

definition create_from_payload :: "send_payload \<Rightarrow> world \<Rightarrow> (error + message) \<times> world" where
  "create_from_payload p w =
     Message_create (or_default (p_roomId p) ''global'') (p_senderId p) (p_senderName p)
       (case p_recipients p of None \<Rightarrow> [] | Some rs \<Rightarrow> rs)
       (Some (or_default (p_content p) []))
       (Some (case p_attachments p of None \<Rightarrow> [] | Some as \<Rightarrow> as)) w"

text \<open>The block "Emit message to appropriate room(s)" of \<open>message:send\<close>.\<close>

definition send_emits :: "sock \<Rightarrow> send_payload \<Rightarrow> message \<Rightarrow> effect list" where
  "send_emits sid p msgDoc =
     (if (case p_roomId p of None \<Rightarrow> False | Some r \<Rightarrow> startsWith r ''private:'') then
        [Emit (ToRoom (js_str (p_roomId p))) ''message:new'' (MessageDoc msgDoc)]
      else if (case p_recipients p of None \<Rightarrow> False | Some rs \<Rightarrow> length rs \<noteq> 0) then
        map (\<lambda>recipientId. Emit (ToRoom (user_room recipientId)) ''message:new'' (MessageDoc msgDoc))
            (case p_recipients p of None \<Rightarrow> [] | Some rs \<Rightarrow> rs)
        @ [Emit (ToSocket sid) ''message:new'' (MessageDoc msgDoc)]
      else if truthy (p_roomId p) \<and> p_roomId p \<noteq> Some ''global'' then
        [Emit (ToRoom (js_str (p_roomId p))) ''message:new'' (MessageDoc msgDoc)]
      else
        [Emit Everyone ''message:new'' (MessageDoc msgDoc)])"

text \<open>
  \<open>socket.on("message:send", async (payload) => ...)\<close>: the handler takes no callback. An
  absent payload throws a TypeError at \<open>payload.roomId\<close>, inside the \<open>try\<close>.
\<close>

definition message_send :: "sock \<Rightarrow> send_payload option \<Rightarrow> world \<Rightarrow> world \<times> effect list" where
  "message_send sid payload w =
     (case payload of
        None \<Rightarrow> (w, [])
      | Some p \<Rightarrow>
          (case create_from_payload p w of
             (Inl e, w1) \<Rightarrow> (w1, [])
           | (Inr msgDoc, w1) \<Rightarrow>
               (w1, send_emits sid p msgDoc
                    @ [sendNotification ''new-message'' (js_str (p_senderName p) @ '' sent a message'')
                         (NewMessageData (or_default (p_roomId p) ''global'') (p_senderName p)) w1])))"

subsection \<open>send_message (server/server.js)\<close>

text \<open>The same block in \<open>send_message\<close>, which also emits \<open>receive_message\<close>.\<close>

definition send_message_emits :: "sock \<Rightarrow> send_payload \<Rightarrow> message \<Rightarrow> effect list" where
  "send_message_emits sid p msgDoc =
     (if (case p_roomId p of None \<Rightarrow> False | Some r \<Rightarrow> startsWith r ''private:'') then
        [Emit (ToRoom (js_str (p_roomId p))) ''message:new'' (MessageDoc msgDoc),
         Emit (ToRoom (js_str (p_roomId p))) ''receive_message'' (MessageDoc msgDoc)]
      else if (case p_recipients p of None \<Rightarrow> False | Some rs \<Rightarrow> length rs \<noteq> 0) then
        map (\<lambda>recipientId. Emit (ToRoom (user_room recipientId)) ''message:new'' (MessageDoc msgDoc))
            (case p_recipients p of None \<Rightarrow> [] | Some rs \<Rightarrow> rs)
        @ [Emit (ToSocket sid) ''message:new'' (MessageDoc msgDoc),
           Emit (ToSocket sid) ''receive_message'' (MessageDoc msgDoc)]
      else if truthy (p_roomId p) \<and> p_roomId p \<noteq> Some ''global'' then
        [Emit (ToRoom (js_str (p_roomId p))) ''message:new'' (MessageDoc msgDoc),
         Emit (ToRoom (js_str (p_roomId p))) ''receive_message'' (MessageDoc msgDoc)]
      else
        [Emit Everyone ''message:new'' (MessageDoc msgDoc),
         Emit Everyone ''receive_message'' (MessageDoc msgDoc)])"

text \<open>
  \<open>socket.on("send_message", async (payload, callback) => ...)\<close>. \<open>has_callback\<close> is
  \<open>typeof callback === "function"\<close>. The \<open>catch\<close> passes the error to the callback.
\<close>

definition send_message ::
  "sock \<Rightarrow> send_payload option \<Rightarrow> bool \<Rightarrow> world \<Rightarrow> world \<times> effect list" where
  "send_message sid payload has_callback w =
     (case payload of
        None \<Rightarrow> (w, if has_callback then [Ack (Inl TypeError)] else [])
      | Some p \<Rightarrow>
          (case create_from_payload p w of
             (Inl e, w1) \<Rightarrow> (w1, if has_callback then [Ack (Inl e)] else [])
           | (Inr msgDoc, w1) \<Rightarrow>
               (w1, send_message_emits sid p msgDoc
                    @ [Emit Everyone ''notification''
                         (Notification ''new-message'' (js_str (p_senderName p) @ '' sent a message'')
                            (NewMessageData (or_default (p_roomId p) ''global'') (p_senderName p))
                            (now w1))]
                    @ (if has_callback then [Ack (Inr msgDoc)] else []))))"

subsection \<open>private_message\<close>

text \<open>
  \<open>socket.join(roomId)\<close>, then \<open>io.to(`user:${toUserId}`).socketsJoin(roomId)\<close>, then the
  emit to the room and the notification through \<open>sendNotification\<close>.
\<close>

definition private_message :: "sock \<Rightarrow> private_payload \<Rightarrow> world \<Rightarrow> world \<times> effect list" where
  "private_message sid p w =
     (let room = private_room_key (pm_senderId p) (Some (pm_toUserId p))
      in case Message_create room (pm_senderId p) (pm_senderName p) [pm_toUserId p]
                (pm_content p)
                (Some (case pm_attachments p of None \<Rightarrow> [] | Some as \<Rightarrow> as)) w of
           (Inl e, w1) \<Rightarrow> (w1, [])
         | (Inr msgDoc, w1) \<Rightarrow>
             (let w2 = w1\<lparr>rooms := (rooms w1)(room := insert sid (rooms w1 room))\<rparr>;
                  w3 = w2\<lparr>rooms := (rooms w2)(room :=
                                       rooms w2 room \<union> rooms w2 (user_room (pm_toUserId p)))\<rparr>
              in (w3, [Emit (ToRoom room) ''message:new'' (MessageDoc msgDoc),
                       sendNotification ''private-message''
                         (''New message from '' @ js_str (pm_senderName p))
                         (PrivateData (pm_senderName p) (pm_toUserId p)) w3])))"

subsection \<open>message:read\<close>

text \<open>
  \<open>msg.readBy.map(String).includes(String(userId))\<close> compares the string forms of the
  stored ids with the string of the payload; \<open>msg.readBy.push(userId)\<close> casts the
  payload's string, and throws when it is no ObjectId.
\<close>

definition message_read :: "sock \<Rightarrow> read_payload \<Rightarrow> world \<Rightarrow> world \<times> effect list" where
  "message_read sid p w =
     (if truthy (r_messageId p) \<and> truthy (r_userId p) then
        (let messageId = js_str (r_messageId p); userId = js_str (r_userId p)
         in case Message_findById messageId w of
              (Inl e, w1) \<Rightarrow> (w1, [])
            | (Inr None, w1) \<Rightarrow> (w1, [])
            | (Inr (Some msg), w1) \<Rightarrow>
                (case (if userId \<in> set (readBy msg) then (Inr msg, w1)
                       else (case cast_oid userId of
                               None \<Rightarrow> (Inl CastError, w1)
                             | Some c \<Rightarrow> message_save (msg\<lparr>readBy := readBy msg @ [c]\<rparr>) w1)) of
                   (Inl e, w2) \<Rightarrow> (w2, [])
                 | (Inr msg', w2) \<Rightarrow>
                     (w2, [Emit (ToRoom (or_default (Some (roomId msg')) ''global''))
                             ''message:read'' (ReadReceipt messageId userId)])))
      else (w, []))"

subsection \<open>message:react\<close>

text \<open>
  The toggle on the users of one reaction entry.
  \<open>findIndex((u) => String(u) === String(userId))\<close> compares the string forms of the
  stored ids with the string of the payload. Then \<open>push(userId)\<close>, which casts the
  string and throws when it is no ObjectId, when no index was found, and
  \<open>splice(idx, 1)\<close>, which removes that one occurrence, otherwise.
\<close>

definition toggle_user :: "string \<Rightarrow> oid list \<Rightarrow> error + oid list" where
  "toggle_user userId us =
     (if userId \<in> set us then Inr (remove1 userId us)
      else (case cast_oid userId of None \<Rightarrow> Inl CastError | Some c \<Rightarrow> Inr (us @ [c])))"

text \<open>
  \<open>msg.reactions.find((r) => r.emoji === emoji)\<close> is the first entry with the emoji; the
  toggle changes that entry in place, and without such an entry a new one,
  \<open>{emoji, users: [userId]}\<close>, is pushed, its user cast like any other.
\<close>

fun react_on :: "string \<Rightarrow> string \<Rightarrow> reaction list \<Rightarrow> error + reaction list" where
  "react_on e userId [] =
     (case cast_oid userId of
        None \<Rightarrow> Inl CastError
      | Some c \<Rightarrow> Inr [\<lparr>emoji = e, users = [c]\<rparr>])"
| "react_on e userId (r # rs) =
     (if emoji r = e then
        (case toggle_user userId (users r) of
           Inl err \<Rightarrow> Inl err
         | Inr us \<Rightarrow> Inr (r\<lparr>users := us\<rparr> # rs))
      else
        (case react_on e userId rs of
           Inl err \<Rightarrow> Inl err
         | Inr rs' \<Rightarrow> Inr (r # rs')))"

text \<open>
  \<open>msg.save()\<close> after the toggle validates what was pushed: \<open>emoji\<close> is required by
  \<open>reactionSchema\<close>, so when no entry matched and the pushed entry has an empty emoji,
  \<open>save\<close> rejects before it reaches the store.
\<close>

definition save_after_react ::
  "string \<Rightarrow> message \<Rightarrow> message \<Rightarrow> world \<Rightarrow> (error + message) \<times> world" where
  "save_after_react e loaded changed w =
     (if e = [] \<and> find (\<lambda>r. emoji r = e) (reactions loaded) = None
      then (Inl ValidationError, w)
      else message_save changed w)"

definition message_react :: "sock \<Rightarrow> react_payload \<Rightarrow> world \<Rightarrow> world \<times> effect list" where
  "message_react sid p w =
     (case Message_findById (rc_messageId p) w of
        (Inl e, w1) \<Rightarrow> (w1, [])
      | (Inr None, w1) \<Rightarrow> (w1, [])
      | (Inr (Some msg), w1) \<Rightarrow>
          (case react_on (rc_emoji p) (rc_userId p) (reactions msg) of
             Inl e \<Rightarrow> (w1, [])
           | Inr rs \<Rightarrow>
               (case save_after_react (rc_emoji p) msg (msg\<lparr>reactions := rs\<rparr>) w1 of
                  (Inl e, w2) \<Rightarrow> (w2, [])
                | (Inr msg', w2) \<Rightarrow>
                    (w2, [Emit Everyone ''message:reaction''
                            (ReactionState (rc_messageId p) (reactions msg'))]))))"

subsection \<open>message:delivered: the two handlers\<close>

text \<open>
  The handler of server/socket/index.js. It pushes the user into \<open>msg.meta.deliveredBy\<close>
  of the loaded document and calls \<open>msg.save()\<close>; \<open>meta\<close> is a Mixed path and the handler
  does not call \<open>markModified\<close>, so that save writes nothing. (\<open>meta\<close> has a schema
  default, so \<open>msg.meta = msg.meta || {}\<close> assigns the value that is there.)
\<close>

definition message_delivered :: "sock \<Rightarrow> delivered_payload \<Rightarrow> world \<Rightarrow> world \<times> effect list" where
  "message_delivered sid p w =
     (case Message_findById (d_messageId p) w of
        (Inl e, w1) \<Rightarrow> (w1, [])
      | (Inr None, w1) \<Rightarrow> (w1, [])
      | (Inr (Some msg), w1) \<Rightarrow>
          (case (if d_userId p \<in> set (deliveredBy msg) then (Inr msg, w1)
                 else save_untracked (msg\<lparr>deliveredBy := deliveredBy msg @ [d_userId p]\<rparr>) w1) of
             (Inl e, w2) \<Rightarrow> (w2, [])
           | (Inr msg', w2) \<Rightarrow>
               (w2, [Emit Everyone ''message:delivered''
                       (DeliveredMark (d_messageId p) (d_userId p))])))"

text \<open>The handler of server/server.js: \<open>socket.broadcast.emit("message:delivered:update", payload)\<close>.\<close>

definition delivered_update :: "sock \<Rightarrow> delivered_payload \<Rightarrow> effect list" where
  "delivered_update sid p = [Emit (Others sid) ''message:delivered:update'' (RawDelivered p)]"

text \<open>
  Both handlers are registered for \<open>message:delivered\<close> on the chat namespace, so one
  inbound event runs both. The second is synchronous and the first emits only after
  its awaited lookup, so the update comes first.
\<close>

definition on_message_delivered :: "sock \<Rightarrow> delivered_payload \<Rightarrow> world \<Rightarrow> world \<times> effect list" where
  "on_message_delivered sid p w =
     (case message_delivered sid p w of
        (w', fx) \<Rightarrow> (w', delivered_update sid p @ fx))"

section \<open>The REST controller (server/controllers/messageController.js)\<close>

text \<open>A response: the status and the JSON body.\<close>

datatype body =
  MessageText string
| ErrorText string
| ReactionsUpdated string "reaction list"
| MessageCreated message
| MessageList "message list"

datatype response = Response nat body

text \<open>
  \<open>sendMessage\<close>: the request is rejected with 400 unless it has a sender id, a sender
  name, and content or at least one attachment.
\<close>

definition sendMessage :: "send_payload \<Rightarrow> world \<Rightarrow> world \<times> response" where
  "sendMessage body w =
     (if \<not> truthy (p_senderId body) \<or> \<not> truthy (p_senderName body)
         \<or> (\<not> truthy (p_content body)
             \<and> (case p_attachments body of None \<Rightarrow> True | Some as \<Rightarrow> length as = 0))
      then (w, Response 400 (MessageText ''Missing required message fields.''))
      else
        (case Message_create (or_default (p_roomId body) ''global'') (p_senderId body)
                (p_senderName body)
                (case p_recipients body of None \<Rightarrow> [] | Some rs \<Rightarrow> rs)
                (p_content body) (p_attachments body) w of
           (Inl e, w1) \<Rightarrow> (w1, Response 500 (MessageText ''Server error while sending message.''))
         | (Inr message, w1) \<Rightarrow> (w1, Response 201 (MessageCreated message))))"

text \<open>
  \<open>markAsRead\<close>: \<open>Message.findByIdAndUpdate(messageId, {$addToSet: {readBy: userId}})\<close>.
  Both ids are cast, and the store adds the id to the set only when it is not in it.
\<close>

definition markAsRead :: "string \<Rightarrow> string \<Rightarrow> world \<Rightarrow> world \<times> response" where
  "markAsRead messageId userId w =
     (case (cast_oid messageId, cast_oid userId) of
        (Some mid, Some c) \<Rightarrow>
          (case db_attempt w of
             (ok, w1) \<Rightarrow>
               if ok then
                 (if list_ex (\<lambda>m. msg_id m = mid \<and> c \<notin> set (readBy m)) (messages_db w1)
                  then w1\<lparr>messages_db :=
                             map (\<lambda>m. if msg_id m = mid \<and> c \<notin> set (readBy m)
                                      then m\<lparr>readBy := readBy m @ [c]\<rparr> else m) (messages_db w1),
                           writes := Suc (writes w1)\<rparr>
                  else w1,
                  Response 200 (MessageText ''Message marked as read.''))
               else (w1, Response 500 (MessageText ''Server error while marking as read.'')))
      | _ \<Rightarrow> (w, Response 500 (MessageText ''Server error while marking as read.'')))"

text \<open>
  \<open>toggleReaction\<close>: \<open>users.includes(userId)\<close> compares the stored ids with the string of
  the payload; then \<open>users.pull(userId)\<close>, which removes every occurrence, or
  \<open>users.push(userId)\<close>, which casts the string.
\<close>

definition pull_or_push :: "string \<Rightarrow> oid list \<Rightarrow> error + oid list" where
  "pull_or_push userId us =
     (if userId \<in> set us then Inr (removeAll userId us)
      else (case cast_oid userId of None \<Rightarrow> Inl CastError | Some c \<Rightarrow> Inr (us @ [c])))"

fun toggle_on :: "string \<Rightarrow> string \<Rightarrow> reaction list \<Rightarrow> error + reaction list" where
  "toggle_on e userId [] =
     (case cast_oid userId of
        None \<Rightarrow> Inl CastError
      | Some c \<Rightarrow> Inr [\<lparr>emoji = e, users = [c]\<rparr>])"
| "toggle_on e userId (r # rs) =
     (if emoji r = e then
        (case pull_or_push userId (users r) of
           Inl err \<Rightarrow> Inl err
         | Inr us \<Rightarrow> Inr (r\<lparr>users := us\<rparr> # rs))
      else
        (case toggle_on e userId rs of
           Inl err \<Rightarrow> Inl err
         | Inr rs' \<Rightarrow> Inr (r # rs')))"

definition toggleReaction :: "react_payload \<Rightarrow> world \<Rightarrow> world \<times> response" where
  "toggleReaction p w =
     (case Message_findById (rc_messageId p) w of
        (Inl e, w1) \<Rightarrow> (w1, Response 500 (MessageText ''Server error while updating reaction.''))
      | (Inr None, w1) \<Rightarrow> (w1, Response 404 (MessageText ''Message not found.''))
      | (Inr (Some msg), w1) \<Rightarrow>
          (case toggle_on (rc_emoji p) (rc_userId p) (reactions msg) of
             Inl e \<Rightarrow> (w1, Response 500 (MessageText ''Server error while updating reaction.''))
           | Inr rs \<Rightarrow>
               (case save_after_react (rc_emoji p) msg (msg\<lparr>reactions := rs\<rparr>) w1 of
                  (Inl e, w2) \<Rightarrow>
                    (w2, Response 500 (MessageText ''Server error while updating reaction.''))
                | (Inr msg', w2) \<Rightarrow>
                    (w2, Response 200 (ReactionsUpdated ''Reaction updated.'' (reactions msg'))))))"

section \<open>The message routes (server/routes/message.routes.js)\<close>

text \<open>
  \<open>GET /api/messages/:roomId\<close>. \<open>parseInt(req.query.limit) || 20\<close> and
  \<open>parseInt(req.query.skip) || 0\<close>: a parameter is \<open>None\<close> when it is absent or not a
  number. The query sorts by \<open>createdAt\<close> descending (latest first; documents with the
  same \<open>createdAt\<close> in the reverse of their insertion order), skips, limits, and the
  route reverses the result.
\<close>

definition sort_createdAt_desc :: "message list \<Rightarrow> message list" where
  "sort_createdAt_desc msgs = rev (sort_key createdAt msgs)"

definition get_room_messages :: "string \<Rightarrow> nat option \<Rightarrow> nat option \<Rightarrow> world \<Rightarrow> world \<times> response" where
  "get_room_messages rid q_limit q_skip w =
     (let lim = (case q_limit of None \<Rightarrow> 20 | Some n \<Rightarrow> if n = 0 then 20 else n);
          skp = (case q_skip of None \<Rightarrow> 0 | Some n \<Rightarrow> n)
      in case db_attempt w of
           (ok, w1) \<Rightarrow>
             if ok then
               (w1, Response 200 (MessageList
                  (rev (limit lim (drop skp
                     (sort_createdAt_desc (Message_find rid (messages_db w1))))))))
             else (w1, Response 500 (ErrorText ''Failed to fetch messages'')))"

section \<open>Observations on the state and on the effects\<close>

text \<open>
  The users of the entry that \<open>find((r) => r.emoji === emoji)\<close> selects for the stored
  message \<open>mid\<close>: \<open>None\<close> when the message or the entry does not exist.
\<close>

definition reaction_users :: "world \<Rightarrow> oid \<Rightarrow> string \<Rightarrow> oid list option" where
  "reaction_users w mid e =
     (case find (\<lambda>m. msg_id m = mid) (messages_db w) of
        None \<Rightarrow> None
      | Some m \<Rightarrow> map_option users (find (\<lambda>r. emoji r = e) (reactions m)))"

definition members :: "oid list option \<Rightarrow> oid list" where
  "members us = (case us of None \<Rightarrow> [] | Some l \<Rightarrow> l)"

text \<open>Whether the identity is in the emoji's user set of the message.\<close>

definition has_reacted :: "world \<Rightarrow> oid \<Rightarrow> string \<Rightarrow> oid \<Rightarrow> bool" where
  "has_reacted w mid e uid =
     (case reaction_users w mid e of None \<Rightarrow> False | Some us \<Rightarrow> uid \<in> set us)"

text \<open>The same reaction event handled \<open>n\<close> times in sequence, by the socket handler and by the REST route.\<close>

definition react_times :: "nat \<Rightarrow> sock \<Rightarrow> react_payload \<Rightarrow> world \<Rightarrow> world" where
  "react_times n sid p w = ((\<lambda>v. fst (message_react sid p v)) ^^ n) w"

definition toggle_times :: "nat \<Rightarrow> react_payload \<Rightarrow> world \<Rightarrow> world" where
  "toggle_times n p w = ((\<lambda>v. fst (toggleReaction p v)) ^^ n) w"

text \<open>
  What \<open>n\<close> toggles with the payload id \<open>uid\<close>, a spelling of the identity \<open>c\<close>, leave
  behind the users of an entry that held neither: when \<open>uid\<close> is the string form of \<open>c\<close>
  the identity comes and goes, and when it is another spelling every toggle adds \<open>c\<close>.
\<close>

definition toggled :: "string \<Rightarrow> oid \<Rightarrow> nat \<Rightarrow> oid list" where
  "toggled uid c n = (if uid = c then (if odd n then [c] else []) else replicate n c)"

text \<open>The history that a list of effects pushes: the payload of its \<open>messages:history\<close> emit.\<close>

fun history_pushed :: "effect list \<Rightarrow> message list option" where
  "history_pushed [] = None"
| "history_pushed (Emit t e (History h) # fx) = Some h"
| "history_pushed (x # fx) = history_pushed fx"

text \<open>A user marked online on a connection: \<open>user.isOnline = true; user.socketId = socket.id\<close>.\<close>

definition online :: "user \<Rightarrow> sock \<Rightarrow> user" where
  "online u sid = u\<lparr>isOnline := True, socketId := Some sid\<rparr>"

section \<open>The fan-out rule\<close>

text \<open>
  The live connections of an identity: the connections that the presence map
  \<open>onlineUsers\<close> binds to it.
\<close>

definition live_connections :: "world \<Rightarrow> string \<Rightarrow> sock set" where
  "live_connections w uid = fst ` set (filter (\<lambda>(s, u). user_id u = uid) (onlineUsers w))"



section \<open>Example states\<close>

text \<open>Three registered users, three connections, an empty Message collection.\<close>

definition alice_id :: oid where "alice_id = ''507f1f77bcf86cd799439011''"
definition bob_id :: oid where "bob_id = ''64b7f0c2a1d3e4f5a6b7c8d9''"
definition carol_id :: oid where "carol_id = ''64b7f0c2a1d3e4f5a6b7c8da''"

definition alice :: user where
  "alice = \<lparr>user_id = alice_id, username = ''alice'', isOnline = False, socketId = None\<rparr>"

definition bob :: user where
  "bob = \<lparr>user_id = bob_id, username = ''bob'', isOnline = False, socketId = None\<rparr>"

definition carol :: user where
  "carol = \<lparr>user_id = carol_id, username = ''carol'', isOnline = False, socketId = None\<rparr>"

definition world0 :: world where
  "world0 = \<lparr>users_db = [alice, bob, carol], messages_db = [], onlineUsers = [],
             rooms = (\<lambda>r. {}), sockets = {''s1'', ''s2'', ''s3''}, faults = [],
             now = 1000, next_oid = 1, writes = 0\<rparr>"

text \<open>A send with neither content nor attachments, and one with content.\<close>

definition empty_payload :: send_payload where
  "empty_payload = \<lparr>p_roomId = Some ''global'', p_senderId = Some alice_id,
                     p_senderName = Some ''alice'', p_recipients = None,
                     p_content = Some [], p_attachments = Some []\<rparr>"

definition hello_payload :: send_payload where
  "hello_payload = \<lparr>p_roomId = Some ''global'', p_senderId = Some alice_id,
                     p_senderName = Some ''alice'', p_recipients = None,
                     p_content = Some ''hi'', p_attachments = None\<rparr>"

text \<open>The \<open>n\<close>-th message of the room \<open>global\<close>, created at time \<open>n\<close>.\<close>

definition global_msg :: "nat \<Rightarrow> message" where
  "global_msg n = \<lparr>msg_id = new_oid n, roomId = ''global'', senderId = alice_id,
                   senderName = ''alice'', recipients = [], content = ''hi'', attachments = [],
                   readBy = [], reactions = [], deliveredBy = [], createdAt = n\<rparr>"

text \<open>120 messages were sent to \<open>global\<close>.\<close>

definition world120 :: world where
  "world120 = world0\<lparr>messages_db := map global_msg [1..<121]\<rparr>"

text \<open>One message in \<open>global\<close>, which Bob has read.\<close>

definition read_msg :: message where
  "read_msg = (global_msg 7)\<lparr>readBy := [bob_id]\<rparr>"

definition world1 :: world where
  "world1 = world0\<lparr>messages_db := [read_msg]\<rparr>"

text \<open>Bob's id written in upper case: another spelling of the same ObjectId.\<close>

definition bob_upper :: string where "bob_upper = ''64B7F0C2A1D3E4F5A6B7C8D9''"

text \<open>
  Bob reacts to the stored message of \<open>world1\<close>, with his id as the server sends it
  and with his id in upper case.
\<close>

definition react_p :: react_payload where
  "react_p = \<lparr>rc_messageId = new_oid 7, rc_emoji = ''+1'', rc_userId = bob_id\<rparr>"

definition react_upper :: react_payload where
  "react_upper = \<lparr>rc_messageId = new_oid 7, rc_emoji = ''+1'', rc_userId = bob_upper\<rparr>"

text \<open>Bob's read receipt and Bob's delivery receipt for the stored message of \<open>world1\<close>.\<close>

definition read_p :: read_payload where
  "read_p = \<lparr>r_messageId = Some (new_oid 7), r_userId = Some bob_id\<rparr>"

definition read_upper :: read_payload where
  "read_upper = \<lparr>r_messageId = Some (new_oid 7), r_userId = Some bob_upper\<rparr>"

definition delivered_p :: delivered_payload where
  "delivered_p = \<lparr>d_messageId = new_oid 7, d_userId = bob_id\<rparr>"

text \<open>Alice has joined on \<open>s1\<close> by name and Bob on \<open>s2\<close> by id; \<open>s3\<close> has not joined.\<close>

definition alice_join :: join_payload where
  "alice_join = \<lparr>j_username = Some ''alice'', j_userId = None\<rparr>"

definition bob_join :: join_payload where
  "bob_join = \<lparr>j_username = Some ''bob'', j_userId = Some bob_id\<rparr>"

definition world_joined :: world where
  "world_joined = fst (user_join ''s2'' (Some bob_join) (fst (user_join ''s1'' (Some alice_join) world0)))"



text \<open>The documents that \<open>empty_payload\<close> and \<open>hello_payload\<close> create in \<open>world0\<close>.\<close>

definition empty_doc :: message where
  "empty_doc = \<lparr>msg_id = new_oid 1, roomId = ''global'', senderId = alice_id,
                 senderName = ''alice'', recipients = [], content = [], attachments = [],
                 readBy = [], reactions = [], deliveredBy = [], createdAt = 1000\<rparr>"

definition hello_doc :: message where
  "hello_doc = \<lparr>msg_id = new_oid 1, roomId = ''global'', senderId = alice_id,
                 senderName = ''alice'', recipients = [], content = ''hi'', attachments = [],
                 readBy = [], reactions = [], deliveredBy = [], createdAt = 1000\<rparr>"

text \<open>Alice sends Bob a private message.\<close>

definition private_p :: private_payload where
  "private_p = \<lparr>pm_toUserId = bob_id, pm_content = Some ''yo'', pm_senderId = Some alice_id,
                 pm_senderName = Some ''alice'', pm_attachments = None\<rparr>"

text \<open>Alice joins on \<open>s1\<close>, and then joins again, by id, on \<open>s3\<close>.\<close>

definition alice_rejoin :: join_payload where
  "alice_rejoin = \<lparr>j_username = Some ''alice'', j_userId = Some alice_id\<rparr>"

definition world_alice :: world where
  "world_alice = fst (user_join ''s1'' (Some alice_join) world0)"

definition world_rejoined :: world where
  "world_rejoined = fst (user_join ''s3'' (Some alice_rejoin) world_alice)"

section \<open>Properties\<close>

lemma ids_nonempty: "alice_id \<noteq> []" "bob_id \<noteq> []" "carol_id \<noteq> []"
  by (simp_all add: alice_id_def bob_id_def carol_id_def)

subsection \<open>The private room key\<close>

lemma private_room_key_commute: "private_room_key a b = private_room_key b a"
  by (cases a; cases b) (auto simp: private_room_key_def js_sort_def)

text \<open>
  Claim C5. The private room key of two identity ids is \<open>private:\<close> followed by the
  smaller id, a colon and the larger id, in the lexicographic order of strings, and so
  the key computed from (A, B) is the key computed from (B, A).
\<close>

theorem private_room_key_symmetric:
  "private_room_key (Some a) (Some b) = private_room_key (Some b) (Some a)
   \<and> private_room_key (Some a) (Some b) = ''private:'' @ min a b @ '':'' @ max a b"
  by (auto simp: private_room_key_def js_sort_def min_def max_def)

theorem private_room_key_symmetric_witness:
  "private_room_key (Some ''64b7f0c2a1d3e4f5a6b7c8d9'') (Some ''507f1f77bcf86cd799439011'')
     = ''private:507f1f77bcf86cd799439011:64b7f0c2a1d3e4f5a6b7c8d9''
   \<and> private_room_key (Some ''507f1f77bcf86cd799439011'') (Some ''64b7f0c2a1d3e4f5a6b7c8d9'')
     = ''private:507f1f77bcf86cd799439011:64b7f0c2a1d3e4f5a6b7c8d9''"
proof -
  let ?a = "''64b7f0c2a1d3e4f5a6b7c8d9''" and ?b = "''507f1f77bcf86cd799439011''"
  have m: "min ?a ?b = ?b" "max ?a ?b = ?a"
    by (simp_all add: min_def max_def)
  note t = private_room_key_symmetric [of ?a ?b, unfolded m]
  from t have "private_room_key (Some ?a) (Some ?b) = private_room_key (Some ?b) (Some ?a)"
    by (rule conjunct1)
  then have swap: "private_room_key (Some ?b) (Some ?a) = private_room_key (Some ?a) (Some ?b)"
    by (rule sym)
  from t have key: "private_room_key (Some ?a) (Some ?b) = ''private:'' @ ?b @ '':'' @ ?a"
    by (rule conjunct2)
  show ?thesis
    unfolding swap key by simp
qed

subsection \<open>ObjectIds\<close>

lemma hex_digit_canonical: "hex_digit d \<in> set ''0123456789abcdef''"
  unfolding hex_digit_def by (rule nth_mem) simp

lemma lower_hex_canonical: "c \<in> set ''0123456789abcdef'' \<Longrightarrow> is_hex_digit c \<and> lower_hex c = c"
  by (auto simp: is_hex_digit_def lower_hex_def)

lemma hex_pad_canonical:
  "length (hex_pad k n) = k \<and> list_all is_hex_digit (hex_pad k n)
   \<and> map lower_hex (hex_pad k n) = hex_pad k n"
  by (induction k n rule: hex_pad.induct)
    (simp_all add: lower_hex_canonical [OF hex_digit_canonical])

lemma cast_new_oid: "cast_oid (new_oid n) = Some (new_oid n)"
  by (simp add: cast_oid_def new_oid_def hex_pad_canonical)

lemma cast_example_ids:
  "cast_oid alice_id = Some alice_id" "cast_oid bob_id = Some bob_id"
  "cast_oid carol_id = Some carol_id" "cast_oid bob_upper = Some bob_id"
  by (simp_all add: cast_oid_def alice_id_def bob_id_def carol_id_def bob_upper_def
      is_hex_digit_def lower_hex_def)

lemma bob_upper_differs: "bob_upper \<noteq> bob_id"
  by (simp add: bob_upper_def bob_id_def)

lemma hex_pad_nonempty: "0 < k \<Longrightarrow> hex_pad k n \<noteq> []"
  by (cases k) simp_all

lemma new_oid_nonempty: "new_oid n \<noteq> []"
  by (simp add: new_oid_def hex_pad_nonempty)

subsection \<open>Reaction toggles\<close>

lemma find_react_on:
  assumes "cast_oid uid = Some c"
  shows "\<exists>rs'. react_on e uid rs = Inr rs'
     \<and> find (\<lambda>r. emoji r = e) rs' =
         Some (case find (\<lambda>r. emoji r = e) rs of
                 None \<Rightarrow> \<lparr>emoji = e, users = [c]\<rparr>
               | Some r \<Rightarrow> r\<lparr>users := (if uid \<in> set (users r) then remove1 uid (users r)
                                         else users r @ [c])\<rparr>)"
  using assms by (induction rs) (auto simp: toggle_user_def)

lemma find_toggle_on:
  assumes "cast_oid uid = Some c"
  shows "\<exists>rs'. toggle_on e uid rs = Inr rs'
     \<and> find (\<lambda>r. emoji r = e) rs' =
         Some (case find (\<lambda>r. emoji r = e) rs of
                 None \<Rightarrow> \<lparr>emoji = e, users = [c]\<rparr>
               | Some r \<Rightarrow> r\<lparr>users := (if uid \<in> set (users r) then removeAll uid (users r)
                                         else users r @ [c])\<rparr>)"
  using assms by (induction rs) (auto simp: pull_or_push_def)

lemma find_replace_by_id:
  "find (\<lambda>m. msg_id m = mid) msgs = Some m \<Longrightarrow> msg_id d = mid \<Longrightarrow>
   find (\<lambda>m. msg_id m = mid) (map (\<lambda>x. if msg_id x = mid then d else x) msgs) = Some d"
  by (induction msgs) (auto split: if_splits)

lemma react_step:
  assumes c: "cast_oid (rc_messageId p) = Some mid"
    and m: "find (\<lambda>m. msg_id m = mid) (messages_db w) = Some m"
    and f: "faults w = []" and e: "rc_emoji p \<noteq> []"
    and u: "cast_oid (rc_userId p) = Some c"
  shows "find (\<lambda>m. msg_id m = mid) (messages_db (fst (message_react sid p w))) \<noteq> None
       \<and> faults (fst (message_react sid p w)) = []
       \<and> reaction_users (fst (message_react sid p w)) mid (rc_emoji p)
           = Some (if rc_userId p \<in> set (members (reaction_users w mid (rc_emoji p)))
                   then remove1 (rc_userId p) (members (reaction_users w mid (rc_emoji p)))
                   else members (reaction_users w mid (rc_emoji p)) @ [c])"
proof -
  from m have id: "msg_id m = mid"
    by (auto simp: find_Some_iff)
  from find_react_on [OF u, of "rc_emoji p" "reactions m"] obtain rs' where
    r: "react_on (rc_emoji p) (rc_userId p) (reactions m) = Inr rs'"
    and fr: "find (\<lambda>r. emoji r = rc_emoji p) rs' =
         Some (case find (\<lambda>r. emoji r = rc_emoji p) (reactions m) of
                 None \<Rightarrow> \<lparr>emoji = rc_emoji p, users = [c]\<rparr>
               | Some r \<Rightarrow> r\<lparr>users := (if rc_userId p \<in> set (users r)
                                         then remove1 (rc_userId p) (users r)
                                         else users r @ [c])\<rparr>)"
    by blast
  have w': "fst (message_react sid p w)
      = w\<lparr>messages_db := map (\<lambda>x. if msg_id x = mid then m\<lparr>reactions := rs'\<rparr> else x)
                              (messages_db w),
           writes := Suc (writes w)\<rparr>"
    using c m f e id
    by (simp add: message_react_def Message_findById_def db_attempt_def r save_after_react_def
        message_save_def)
  have found: "find (\<lambda>m. msg_id m = mid) (messages_db (fst (message_react sid p w)))
      = Some (m\<lparr>reactions := rs'\<rparr>)"
    using m id by (simp add: w' find_replace_by_id)
  have ru: "reaction_users (fst (message_react sid p w)) mid (rc_emoji p)
      = map_option users (find (\<lambda>r. emoji r = rc_emoji p) rs')"
    by (simp add: reaction_users_def found)
  have f': "faults (fst (message_react sid p w)) = []"
    by (simp add: w' f)
  show ?thesis
    using m by (simp add: ru fr found f' reaction_users_def members_def split: option.split)
qed

lemma toggle_step:
  assumes c: "cast_oid (rc_messageId p) = Some mid"
    and m: "find (\<lambda>m. msg_id m = mid) (messages_db w) = Some m"
    and f: "faults w = []" and e: "rc_emoji p \<noteq> []"
    and u: "cast_oid (rc_userId p) = Some c"
  shows "find (\<lambda>m. msg_id m = mid) (messages_db (fst (toggleReaction p w))) \<noteq> None
       \<and> faults (fst (toggleReaction p w)) = []
       \<and> reaction_users (fst (toggleReaction p w)) mid (rc_emoji p)
           = Some (if rc_userId p \<in> set (members (reaction_users w mid (rc_emoji p)))
                   then removeAll (rc_userId p) (members (reaction_users w mid (rc_emoji p)))
                   else members (reaction_users w mid (rc_emoji p)) @ [c])"
proof -
  from m have id: "msg_id m = mid"
    by (auto simp: find_Some_iff)
  from find_toggle_on [OF u, of "rc_emoji p" "reactions m"] obtain rs' where
    r: "toggle_on (rc_emoji p) (rc_userId p) (reactions m) = Inr rs'"
    and fr: "find (\<lambda>r. emoji r = rc_emoji p) rs' =
         Some (case find (\<lambda>r. emoji r = rc_emoji p) (reactions m) of
                 None \<Rightarrow> \<lparr>emoji = rc_emoji p, users = [c]\<rparr>
               | Some r \<Rightarrow> r\<lparr>users := (if rc_userId p \<in> set (users r)
                                         then removeAll (rc_userId p) (users r)
                                         else users r @ [c])\<rparr>)"
    by blast
  have w': "fst (toggleReaction p w)
      = w\<lparr>messages_db := map (\<lambda>x. if msg_id x = mid then m\<lparr>reactions := rs'\<rparr> else x)
                              (messages_db w),
           writes := Suc (writes w)\<rparr>"
    using c m f e id
    by (simp add: toggleReaction_def Message_findById_def db_attempt_def r save_after_react_def
        message_save_def)
  have found: "find (\<lambda>m. msg_id m = mid) (messages_db (fst (toggleReaction p w)))
      = Some (m\<lparr>reactions := rs'\<rparr>)"
    using m id by (simp add: w' find_replace_by_id)
  have ru: "reaction_users (fst (toggleReaction p w)) mid (rc_emoji p)
      = map_option users (find (\<lambda>r. emoji r = rc_emoji p) rs')"
    by (simp add: reaction_users_def found)
  have f': "faults (fst (toggleReaction p w)) = []"
    by (simp add: w' f)
  show ?thesis
    using m by (simp add: ru fr found f' reaction_users_def members_def split: option.split)
qed

lemma toggled_step:
  assumes "uid \<notin> set base" and "c \<notin> set base"
  shows "(if uid \<in> set (base @ toggled uid c n) then remove1 uid (base @ toggled uid c n)
          else (base @ toggled uid c n) @ [c]) = base @ toggled uid c (Suc n)"
    and "(if uid \<in> set (base @ toggled uid c n) then removeAll uid (base @ toggled uid c n)
          else (base @ toggled uid c n) @ [c]) = base @ toggled uid c (Suc n)"
  using assms by (auto simp: toggled_def remove1_append replicate_append_same)


lemma react_times_users:
  assumes c: "cast_oid (rc_messageId p) = Some mid"
    and m: "find (\<lambda>m. msg_id m = mid) (messages_db w) = Some m"
    and f: "faults w = []" and e: "rc_emoji p \<noteq> []"
    and u: "cast_oid (rc_userId p) = Some c"
    and a: "rc_userId p \<notin> set (members (reaction_users w mid (rc_emoji p)))"
           "c \<notin> set (members (reaction_users w mid (rc_emoji p)))"
  shows "find (\<lambda>m. msg_id m = mid) (messages_db (react_times n sid p w)) \<noteq> None
       \<and> faults (react_times n sid p w) = []
       \<and> members (reaction_users (react_times n sid p w) mid (rc_emoji p))
           = members (reaction_users w mid (rc_emoji p)) @ toggled (rc_userId p) c n
       \<and> (0 < n \<longrightarrow> reaction_users (react_times n sid p w) mid (rc_emoji p) \<noteq> None)"
proof (induction n)
  case 0
  with m f show ?case by (simp add: react_times_def toggled_def)
next
  case (Suc n)
  let ?v = "react_times n sid p w"
  from Suc obtain m' where
    m': "find (\<lambda>m. msg_id m = mid) (messages_db ?v) = Some m'"
    and f': "faults ?v = []"
    and us: "members (reaction_users ?v mid (rc_emoji p))
           = members (reaction_users w mid (rc_emoji p)) @ toggled (rc_userId p) c n"
    by blast
  have next_world: "react_times (Suc n) sid p w = fst (message_react sid p ?v)"
    by (simp add: react_times_def)
  note s = react_step [OF c m' f' e u, of sid, folded next_world, unfolded us toggled_step(1) [OF a]]
  from s show ?case
    by (simp add: members_def)
qed

lemma toggle_times_users:
  assumes c: "cast_oid (rc_messageId p) = Some mid"
    and m: "find (\<lambda>m. msg_id m = mid) (messages_db w) = Some m"
    and f: "faults w = []" and e: "rc_emoji p \<noteq> []"
    and u: "cast_oid (rc_userId p) = Some c"
    and a: "rc_userId p \<notin> set (members (reaction_users w mid (rc_emoji p)))"
           "c \<notin> set (members (reaction_users w mid (rc_emoji p)))"
  shows "find (\<lambda>m. msg_id m = mid) (messages_db (toggle_times n p w)) \<noteq> None
       \<and> faults (toggle_times n p w) = []
       \<and> members (reaction_users (toggle_times n p w) mid (rc_emoji p))
           = members (reaction_users w mid (rc_emoji p)) @ toggled (rc_userId p) c n
       \<and> (0 < n \<longrightarrow> reaction_users (toggle_times n p w) mid (rc_emoji p) \<noteq> None)"
proof (induction n)
  case 0
  with m f show ?case by (simp add: toggle_times_def toggled_def)
next
  case (Suc n)
  let ?v = "toggle_times n p w"
  from Suc obtain m' where
    m': "find (\<lambda>m. msg_id m = mid) (messages_db ?v) = Some m'"
    and f': "faults ?v = []"
    and us: "members (reaction_users ?v mid (rc_emoji p))
           = members (reaction_users w mid (rc_emoji p)) @ toggled (rc_userId p) c n"
    by blast
  have next_world: "toggle_times (Suc n) p w = fst (toggleReaction p ?v)"
    by (simp add: toggle_times_def)
  note s = toggle_step [OF c m' f' e u, folded next_world, unfolded us toggled_step(2) [OF a]]
  from s show ?case
    by (simp add: members_def)
qed

lemma has_reacted_members:
  "has_reacted w mid e uid = (uid \<in> set (members (reaction_users w mid e)))"
  by (simp add: has_reacted_def members_def split: option.split)

lemma users_of_entry:
  "us \<noteq> None \<Longrightarrow> members us = l \<Longrightarrow> us = Some l"
  by (auto simp: members_def)

lemma toggled_member: "c \<in> set (toggled uid c n) = (if uid = c then odd n else 0 < n)"
  by (simp add: toggled_def)

text \<open>
  Claim C6, as the code behaves. On a stored message, with a non-empty emoji and no
  failing store operation, let the payload's user id spell the ObjectId \<open>c\<close>, with \<open>c\<close>
  not in the emoji's user set at the start. When the payload's id is the string form of
  \<open>c\<close>, after \<open>n\<close> toggles in sequence \<open>c\<close> is in the set exactly when \<open>n\<close> is odd. When it
  is another spelling of \<open>c\<close> (upper-case digits), the comparison of string forms never
  finds it and every toggle pushes \<open>c\<close> again: \<open>c\<close> is in the set after any positive
  number of toggles, \<open>n\<close> times over. Both hold for the socket handler and for the REST
  route. After the first toggle the emoji's entry exists for good, so the toggle that
  removes the last user leaves the entry in the list with no users.
\<close>

theorem reaction_toggle_by_spelling:
  assumes "cast_oid (rc_messageId p) = Some mid"
    and "find (\<lambda>m. msg_id m = mid) (messages_db w) = Some m"
    and "faults w = []" and "rc_emoji p \<noteq> []"
    and "cast_oid (rc_userId p) = Some c"
    and "rc_userId p \<notin> set (members (reaction_users w mid (rc_emoji p)))"
    and "\<not> has_reacted w mid (rc_emoji p) c"
  shows "has_reacted (react_times n sid p w) mid (rc_emoji p) c
           = (if rc_userId p = c then odd n else 0 < n)
       \<and> has_reacted (toggle_times n p w) mid (rc_emoji p) c
           = (if rc_userId p = c then odd n else 0 < n)
       \<and> (0 < n \<longrightarrow>
            reaction_users (react_times n sid p w) mid (rc_emoji p)
              = Some (members (reaction_users w mid (rc_emoji p)) @ toggled (rc_userId p) c n)
          \<and> reaction_users (toggle_times n p w) mid (rc_emoji p)
              = Some (members (reaction_users w mid (rc_emoji p)) @ toggled (rc_userId p) c n))"
proof -
  from assms(7) have absent: "c \<notin> set (members (reaction_users w mid (rc_emoji p)))"
    by (simp add: has_reacted_members)
  note r = react_times_users [OF assms(1-6) absent, of n sid]
  note t = toggle_times_users [OF assms(1-6) absent, of n]
  have "has_reacted (react_times n sid p w) mid (rc_emoji p) c
           = (if rc_userId p = c then odd n else 0 < n)"
    using r absent by (simp add: has_reacted_members toggled_member)
  moreover
  have "has_reacted (toggle_times n p w) mid (rc_emoji p) c
           = (if rc_userId p = c then odd n else 0 < n)"
    using t absent by (simp add: has_reacted_members toggled_member)
  moreover
  have "0 < n \<longrightarrow>
            reaction_users (react_times n sid p w) mid (rc_emoji p)
              = Some (members (reaction_users w mid (rc_emoji p)) @ toggled (rc_userId p) c n)"
    using r by (auto intro: users_of_entry)
  moreover
  have "0 < n \<longrightarrow>
            reaction_users (toggle_times n p w) mid (rc_emoji p)
              = Some (members (reaction_users w mid (rc_emoji p)) @ toggled (rc_userId p) c n)"
    using t by (auto intro: users_of_entry)
  ultimately show ?thesis by blast
qed

lemma world1_find: "find (\<lambda>m. msg_id m = new_oid 7) (messages_db world1) = Some read_msg"
  by (simp add: world1_def world0_def read_msg_def global_msg_def)

lemma world1_no_reaction: "reaction_users world1 (new_oid 7) ''+1'' = None"
  by (simp add: reaction_users_def world1_find read_msg_def global_msg_def)

text \<open>
  Bob toggles twice with his id in upper case: he is in the set, twice, after an even
  number of toggles.
\<close>

theorem reaction_toggle_by_spelling_witness:
  "has_reacted (react_times 2 ''s1'' react_upper world1) (new_oid 7) ''+1'' bob_id
   \<and> has_reacted (toggle_times 2 react_upper world1) (new_oid 7) ''+1'' bob_id
   \<and> reaction_users (react_times 2 ''s1'' react_upper world1) (new_oid 7) ''+1''
       = Some [bob_id, bob_id]
   \<and> reaction_users (toggle_times 2 react_upper world1) (new_oid 7) ''+1''
       = Some [bob_id, bob_id]"
proof -
  have c: "cast_oid (rc_messageId react_upper) = Some (new_oid 7)"
    by (simp add: react_upper_def cast_new_oid)
  have f: "faults world1 = []"
    by (simp add: world1_def world0_def)
  have e: "rc_emoji react_upper \<noteq> []" "rc_emoji react_upper = ''+1''"
    by (simp_all add: react_upper_def)
  have u: "cast_oid (rc_userId react_upper) = Some bob_id" "rc_userId react_upper = bob_upper"
    by (simp_all add: react_upper_def cast_example_ids)
  have a: "rc_userId react_upper \<notin> set (members (reaction_users world1 (new_oid 7) (rc_emoji react_upper)))"
    "\<not> has_reacted world1 (new_oid 7) (rc_emoji react_upper) bob_id"
    by (simp_all add: e(2) world1_no_reaction members_def has_reacted_def)
  have t2: "toggled bob_upper bob_id 2 = [bob_id, bob_id]"
    using bob_upper_differs by (simp add: toggled_def numeral_2_eq_2)
  from reaction_toggle_by_spelling [OF c world1_find f e(1) u(1) a, of 2 "''s1''"]
  show ?thesis
    unfolding e(2) u(2) world1_no_reaction t2 using bob_upper_differs
    by (simp add: members_def)
qed

text \<open>With his id as the server sends it, two toggles leave the entry with no users.\<close>

lemma canonical_toggles_alternate:
  "\<not> has_reacted (react_times 2 ''s1'' react_p world1) (new_oid 7) ''+1'' bob_id
   \<and> reaction_users (react_times 2 ''s1'' react_p world1) (new_oid 7) ''+1'' = Some []"
proof -
  have c: "cast_oid (rc_messageId react_p) = Some (new_oid 7)"
    by (simp add: react_p_def cast_new_oid)
  have f: "faults world1 = []"
    by (simp add: world1_def world0_def)
  have e: "rc_emoji react_p \<noteq> []" "rc_emoji react_p = ''+1''"
    by (simp_all add: react_p_def)
  have u: "cast_oid (rc_userId react_p) = Some bob_id" "rc_userId react_p = bob_id"
    by (simp_all add: react_p_def cast_example_ids)
  have a: "rc_userId react_p \<notin> set (members (reaction_users world1 (new_oid 7) (rc_emoji react_p)))"
    "\<not> has_reacted world1 (new_oid 7) (rc_emoji react_p) bob_id"
    by (simp_all add: e(2) world1_no_reaction members_def has_reacted_def)
  have r: "members (reaction_users world1 (new_oid 7) ''+1'') = []"
    by (simp add: world1_no_reaction members_def)
  from react_times_users [OF c world1_find f e(1) u(1) a(1), of 2 "''s1''"] a(2)
  show ?thesis
    unfolding e(2) u(2) r
    by (auto simp: has_reacted_members toggled_def members_def)
qed

subsection \<open>Read receipts\<close>

text \<open>
  Claim C7, as the code behaves. Take a read receipt whose message id and user id spell
  ObjectIds, for a stored message, with no failing store operation. The pair, as
  received, is emitted to the message's room. If the user id as received is among the
  string forms of \<open>readBy\<close>, the store is unchanged and nothing is written. Otherwise the
  ObjectId it spells is appended to \<open>readBy\<close> and the message is written: also when that
  ObjectId is in \<open>readBy\<close> already and the payload spells it another way (upper-case
  digits), which stores it a second time.
\<close>

theorem read_receipt_by_spelling:
  assumes "r_messageId p = Some i" and "cast_oid i = Some mid"
    and "r_userId p = Some uid" and "cast_oid uid = Some c"
    and "find (\<lambda>m. msg_id m = mid) (messages_db w) = Some m"
    and "faults w = []"
  shows "snd (message_read sid p w)
           = [Emit (ToRoom (or_default (Some (roomId m)) ''global'')) ''message:read''
                (ReadReceipt i uid)]
       \<and> (uid \<in> set (readBy m) \<longrightarrow>
            messages_db (fst (message_read sid p w)) = messages_db w
          \<and> writes (fst (message_read sid p w)) = writes w)
       \<and> (uid \<notin> set (readBy m) \<longrightarrow>
            find (\<lambda>m. msg_id m = mid) (messages_db (fst (message_read sid p w)))
              = Some (m\<lparr>readBy := readBy m @ [c]\<rparr>)
          \<and> writes (fst (message_read sid p w)) = Suc (writes w))"
proof -
  from assms(5) have id: "msg_id m = mid"
    by (auto simp: find_Some_iff)
  from assms(2,4) have ne: "i \<noteq> []" "uid \<noteq> []"
    by (auto simp: cast_oid_def split: if_splits)
  show ?thesis
    using assms id ne
    by (simp add: message_read_def Message_findById_def db_attempt_def message_save_def
        find_replace_by_id)
qed

text \<open>
  Bob, who has read the message, sends the receipt with his id in upper case: \<open>readBy\<close>
  holds him twice and one write is made.
\<close>

theorem read_receipt_by_spelling_witness:
  "snd (message_read ''s2'' read_upper world1)
     = [Emit (ToRoom ''global'') ''message:read'' (ReadReceipt (new_oid 7) bob_upper)]
   \<and> find (\<lambda>m. msg_id m = new_oid 7) (messages_db (fst (message_read ''s2'' read_upper world1)))
       = Some (read_msg\<lparr>readBy := [bob_id, bob_id]\<rparr>)
   \<and> writes (fst (message_read ''s2'' read_upper world1)) = 1"
proof -
  have f: "faults world1 = []"
    by (simp add: world1_def world0_def)
  have r: "bob_upper \<notin> set (readBy read_msg)" "readBy read_msg = [bob_id]"
    "roomId read_msg = ''global''"
    using bob_upper_differs by (simp_all add: read_msg_def global_msg_def)
  have s: "writes world1 = 0"
    by (simp add: world1_def world0_def)
  have p: "r_messageId read_upper = Some (new_oid 7)" "r_userId read_upper = Some bob_upper"
    by (simp_all add: read_upper_def)
  from read_receipt_by_spelling [OF p(1) cast_new_oid p(2) cast_example_ids(4) world1_find f,
      of "''s2''"]
  show ?thesis
    using r s by simp
qed

text \<open>With his id as the server sends it, nothing is stored and the pair is emitted.\<close>

lemma read_receipt_canonical:
  "snd (message_read ''s2'' read_p world1)
     = [Emit (ToRoom ''global'') ''message:read'' (ReadReceipt (new_oid 7) bob_id)]
   \<and> messages_db (fst (message_read ''s2'' read_p world1)) = messages_db world1
   \<and> writes (fst (message_read ''s2'' read_p world1)) = writes world1"
proof -
  have f: "faults world1 = []" "messages_db world1 = [read_msg]"
    by (simp_all add: world1_def world0_def)
  have r: "msg_id read_msg = new_oid 7" "readBy read_msg = [bob_id]"
    "roomId read_msg = ''global''"
    by (simp_all add: read_msg_def global_msg_def)
  have m: "message_read ''s2'' read_p world1
             = (world1, [Emit (ToRoom ''global'') ''message:read''
                           (ReadReceipt (new_oid 7) bob_id)])"
    by (simp add: message_read_def Message_findById_def db_attempt_def read_p_def
        cast_new_oid new_oid_nonempty ids_nonempty f r)
  show ?thesis
    by (simp add: m)
qed

text \<open>
  A user id that spells no ObjectId and is not in \<open>readBy\<close> makes the push throw: the
  handler ends in its catch, with no emit.
\<close>

lemma read_receipt_uncastable:
  assumes "r_messageId p = Some i" and "cast_oid i = Some mid"
    and "r_userId p = Some uid" and "uid \<noteq> []" and "cast_oid uid = None"
    and "find (\<lambda>m. msg_id m = mid) (messages_db w) = Some m"
    and "uid \<notin> set (readBy m)"
    and "faults w = []"
  shows "message_read sid p w = (w, [])"
proof -
  from assms(2) have ne: "i \<noteq> []"
    by (auto simp: cast_oid_def split: if_splits)
  show ?thesis
    using assms ne
    by (simp add: message_read_def Message_findById_def db_attempt_def)
qed

text \<open>
  The REST route marks a message read with \<open>$addToSet\<close> on the cast id, which stores no
  duplicate whatever the spelling.
\<close>

lemma rest_mark_as_read_no_duplicate:
  "fst (markAsRead (new_oid 7) bob_upper world1) = world1"
proof -
  have f: "faults world1 = []" "messages_db world1 = [read_msg]"
    by (simp_all add: world1_def world0_def)
  have r: "msg_id read_msg = new_oid 7" "readBy read_msg = [bob_id]"
    by (simp_all add: read_msg_def global_msg_def)
  show ?thesis
    by (simp add: markAsRead_def cast_new_oid cast_example_ids db_attempt_def f r)
qed

subsection \<open>Delivery receipts\<close>

lemma db_attempt_store:
  "messages_db (snd (db_attempt w)) = messages_db w \<and> writes (snd (db_attempt w)) = writes w"
  by (simp add: db_attempt_def split: list.splits)

lemma message_delivered_store:
  "messages_db (fst (message_delivered sid p w)) = messages_db w
   \<and> writes (fst (message_delivered sid p w)) = writes w"
  by (auto simp: message_delivered_def Message_findById_def save_untracked_def db_attempt_def
      split: list.splits option.splits if_splits)

text \<open>
  Claim C10, as the code behaves. One inbound message:delivered event runs both
  handlers. The \<open>message:delivered:update\<close> of the raw payload goes first, to every
  connection but the sender's, whether or not the message exists or the store fails.
  With no failing store operation, a \<open>message:delivered\<close> emit of the pair to every
  connection follows exactly when the message id spells the ObjectId of a stored
  message. The delivery mark is not persisted: the handler changes \<open>meta\<close> of the loaded
  document only, and the stored messages and the number of writes are those from
  before the event, on every input.
\<close>

theorem delivered_broadcasts_without_mark:
  "messages_db (fst (on_message_delivered sid p w)) = messages_db w
   \<and> writes (fst (on_message_delivered sid p w)) = writes w
   \<and> take 1 (snd (on_message_delivered sid p w))
       = [Emit (Others sid) ''message:delivered:update'' (RawDelivered p)]
   \<and> (faults w = [] \<longrightarrow>
        snd (on_message_delivered sid p w)
          = Emit (Others sid) ''message:delivered:update'' (RawDelivered p)
            # (case cast_oid (d_messageId p) of
                 None \<Rightarrow> []
               | Some mid \<Rightarrow>
                   (case find (\<lambda>m. msg_id m = mid) (messages_db w) of
                      None \<Rightarrow> []
                    | Some m \<Rightarrow> [Emit Everyone ''message:delivered''
                                  (DeliveredMark (d_messageId p) (d_userId p))])))"
proof -
  have a: "messages_db (fst (on_message_delivered sid p w)) = messages_db w
     \<and> writes (fst (on_message_delivered sid p w)) = writes w"
    using message_delivered_store [of sid p w]
    by (cases "message_delivered sid p w") (simp add: on_message_delivered_def)
  have b: "take 1 (snd (on_message_delivered sid p w))
       = [Emit (Others sid) ''message:delivered:update'' (RawDelivered p)]"
    by (simp add: on_message_delivered_def delivered_update_def split: prod.splits)
  have c: "faults w = [] \<longrightarrow>
        snd (on_message_delivered sid p w)
          = Emit (Others sid) ''message:delivered:update'' (RawDelivered p)
            # (case cast_oid (d_messageId p) of
                 None \<Rightarrow> []
               | Some mid \<Rightarrow>
                   (case find (\<lambda>m. msg_id m = mid) (messages_db w) of
                      None \<Rightarrow> []
                    | Some m \<Rightarrow> [Emit Everyone ''message:delivered''
                                  (DeliveredMark (d_messageId p) (d_userId p))]))"
  proof
    assume f: "faults w = []"
    hence d: "db_attempt w = (True, w)"
      by (simp add: db_attempt_def)
    show "snd (on_message_delivered sid p w)
          = Emit (Others sid) ''message:delivered:update'' (RawDelivered p)
            # (case cast_oid (d_messageId p) of
                 None \<Rightarrow> []
               | Some mid \<Rightarrow>
                   (case find (\<lambda>m. msg_id m = mid) (messages_db w) of
                      None \<Rightarrow> []
                    | Some m \<Rightarrow> [Emit Everyone ''message:delivered''
                                  (DeliveredMark (d_messageId p) (d_userId p))]))"
    proof (cases "cast_oid (d_messageId p)")
      case None
      thus ?thesis
        by (simp add: on_message_delivered_def delivered_update_def message_delivered_def
            Message_findById_def)
    next
      case (Some mid)
      show ?thesis
      proof (cases "find (\<lambda>m. msg_id m = mid) (messages_db w)")
        case None
        with Some d show ?thesis
          by (simp add: on_message_delivered_def delivered_update_def message_delivered_def
              Message_findById_def)
      next
        case (Some m)
        with \<open>cast_oid (d_messageId p) = Some mid\<close> d show ?thesis
          by (simp add: on_message_delivered_def delivered_update_def message_delivered_def
              Message_findById_def save_untracked_def)
      qed
    qed
  qed
  from a b c show ?thesis
    by blast
qed

text \<open>
  Bob confirms the delivery of the stored message: both broadcasts go out, and the
  stored message is the one from before, with no \<open>deliveredBy\<close> and no write.
\<close>

theorem delivered_broadcasts_without_mark_witness:
  "snd (on_message_delivered ''s2'' delivered_p world1)
     = [Emit (Others ''s2'') ''message:delivered:update'' (RawDelivered delivered_p),
        Emit Everyone ''message:delivered'' (DeliveredMark (new_oid 7) bob_id)]
   \<and> messages_db (fst (on_message_delivered ''s2'' delivered_p world1)) = [read_msg]
   \<and> deliveredBy read_msg = []
   \<and> writes (fst (on_message_delivered ''s2'' delivered_p world1)) = 0"
proof -
  have f: "faults world1 = []" "messages_db world1 = [read_msg]" "writes world1 = 0"
    by (simp_all add: world1_def world0_def)
  have p: "d_messageId delivered_p = new_oid 7" "d_userId delivered_p = bob_id"
    by (simp_all add: delivered_p_def)
  have r: "msg_id read_msg = new_oid 7" "deliveredBy read_msg = []"
    by (simp_all add: read_msg_def global_msg_def)
  from delivered_broadcasts_without_mark [of "''s2''" delivered_p world1]
  show ?thesis
    by (simp add: f p r cast_new_oid)
qed

text \<open>A message that does not exist gets the update alone.\<close>

lemma delivered_unknown_message:
  "snd (on_message_delivered ''s2'' delivered_p world0)
     = [Emit (Others ''s2'') ''message:delivered:update'' (RawDelivered delivered_p)]"
  by (simp add: on_message_delivered_def delivered_update_def message_delivered_def
      Message_findById_def db_attempt_def world0_def delivered_p_def cast_new_oid)

subsection \<open>The example states\<close>

lemma user_ids_differ: "alice_id \<noteq> bob_id" "alice_id \<noteq> carol_id" "bob_id \<noteq> carol_id"
  by (simp_all add: alice_id_def bob_id_def carol_id_def)

lemma world_alice_eval:
  "world_alice = world0\<lparr>users_db := [alice\<lparr>isOnline := True, socketId := Some ''s1''\<rparr>, bob, carol],
                        onlineUsers := [(''s1'', alice\<lparr>isOnline := True, socketId := Some ''s1''\<rparr>)],
                        rooms := (\<lambda>r. {})(user_room alice_id := {''s1''}),
                        writes := 1\<rparr>"
  by (simp add: world_alice_def user_join_def resolve_user_def bind_if_found_def alice_join_def
      world0_def User_findOne_def find_or_create_user_def bind_user_def user_save_def
      fetch_history_def db_attempt_def alice_def bob_def carol_def user_ids_differ
      user_ids_differ [symmetric])

lemma world_joined_eval:
  "world_joined = world0\<lparr>users_db := [alice\<lparr>isOnline := True, socketId := Some ''s1''\<rparr>,
                                       bob\<lparr>isOnline := True, socketId := Some ''s2''\<rparr>, carol],
                        onlineUsers := [(''s1'', alice\<lparr>isOnline := True, socketId := Some ''s1''\<rparr>),
                                        (''s2'', bob\<lparr>isOnline := True, socketId := Some ''s2''\<rparr>)],
                        rooms := (\<lambda>r. {})(user_room alice_id := {''s1''}, user_room bob_id := {''s2''}),
                        writes := 2\<rparr>"
proof -
  have "world_joined = fst (user_join ''s2'' (Some bob_join) world_alice)"
    by (simp add: world_joined_def world_alice_def)
  also have "\<dots> = world0\<lparr>users_db := [alice\<lparr>isOnline := True, socketId := Some ''s1''\<rparr>,
                                       bob\<lparr>isOnline := True, socketId := Some ''s2''\<rparr>, carol],
                        onlineUsers := [(''s1'', alice\<lparr>isOnline := True, socketId := Some ''s1''\<rparr>),
                                        (''s2'', bob\<lparr>isOnline := True, socketId := Some ''s2''\<rparr>)],
                        rooms := (\<lambda>r. {})(user_room alice_id := {''s1''}, user_room bob_id := {''s2''}),
                        writes := 2\<rparr>"
    unfolding world_alice_eval
    by (simp add: user_join_def resolve_user_def bind_if_found_def bob_join_def
      world0_def User_findById_def cast_example_ids bind_user_def user_save_def
      fetch_history_def db_attempt_def alice_def bob_def carol_def user_ids_differ
      user_ids_differ [symmetric] ids_nonempty user_room_def)
  finally show ?thesis .
qed



lemma user_rooms_differ:
  "user_room alice_id \<noteq> user_room bob_id" "user_room alice_id \<noteq> user_room carol_id"
  "user_room bob_id \<noteq> user_room carol_id"
  by (simp_all add: user_room_def user_ids_differ)

lemma world_joined_facts:
  "rooms world_joined (user_room bob_id) = {''s2''}"
  "rooms world_joined (user_room carol_id) = {}"
  "live_connections world_joined bob_id = {''s2''}"
  "live_connections world_joined carol_id = {}"
  "sockets world_joined = {''s1'', ''s2'', ''s3''}"
  "faults world_joined = []"
  unfolding world_joined_eval
  by (simp_all add: live_connections_def world0_def alice_def bob_def user_rooms_differ
      user_rooms_differ [symmetric] user_ids_differ user_ids_differ [symmetric])


subsection \<open>Sending\<close>






lemma acks_append: "acks (fx @ gx) = acks fx @ acks gx"
  by (induction fx rule: acks.induct) auto

lemma acks_map_emit: "acks (map (\<lambda>r. Emit (t r) ev d) rs) = []"
  by (induction rs) auto

lemma acks_send_emits:
  "acks (send_emits sid p d) = []" "acks (send_message_emits sid p d) = []"
  by (simp_all add: send_emits_def send_message_emits_def acks_append acks_map_emit)





text \<open>
  Claim C1, as the code behaves. A send with empty or absent content and empty or absent
  attachments, with a sender id and recipient ids that spell ObjectIds, a sender name and
  no failing store operation, is persisted by both handlers, with empty content and no
  attachments; \<open>send_message\<close> acknowledges it as delivered, and \<open>message:send\<close> sends no
  acknowledgement at all.
\<close>

theorem empty_send_is_persisted:
  assumes "cast_opt (p_senderId p) = Some sender"
    and "cast_all (case p_recipients p of None \<Rightarrow> [] | Some rs \<Rightarrow> rs) = Some rcps"
    and "truthy (p_senderName p)"
    and "\<not> truthy (p_content p)"
    and "p_attachments p = None \<or> p_attachments p = Some []"
    and "faults w = []"
  shows "\<exists>doc. content doc = [] \<and> attachments doc = []
       \<and> messages_db (fst (send_message sid (Some p) True w)) = messages_db w @ [doc]
       \<and> acks (snd (send_message sid (Some p) True w)) = [Inr doc]
       \<and> messages_db (fst (message_send sid (Some p) w)) = messages_db w @ [doc]
       \<and> acks (snd (message_send sid (Some p) w)) = []"
proof -
  let ?doc = "\<lparr>msg_id = new_oid (next_oid w), roomId = or_default (p_roomId p) ''global'',
               senderId = sender, senderName = js_str (p_senderName p),
               recipients = rcps,
               content = [], attachments = [], readBy = [], reactions = [], deliveredBy = [],
               createdAt = now w\<rparr>"
  have c: "or_default (p_content p) [] = []"
    using assms(4) by (cases "p_content p") auto
  have a: "(case p_attachments p of None \<Rightarrow> [] | Some as \<Rightarrow> as) = []"
    using assms(5) by auto
  have created: "create_from_payload p w
      = (Inr ?doc, w\<lparr>messages_db := messages_db w @ [?doc], next_oid := Suc (next_oid w),
                       writes := Suc (writes w)\<rparr>)"
    using assms(1,2,3,6)
    by (simp add: create_from_payload_def Message_create_def db_attempt_def schema_valid_def
        c a js_trim_def Let_def)
  show ?thesis
    by (rule exI [of _ ?doc])
      (simp add: send_message_def message_send_def created acks_append acks_send_emits
        sendNotification_def)
qed

theorem empty_send_is_persisted_witness:
  "\<exists>doc. content doc = [] \<and> attachments doc = []
       \<and> messages_db (fst (send_message ''s1'' (Some empty_payload) True world0))
           = messages_db world0 @ [doc]
       \<and> acks (snd (send_message ''s1'' (Some empty_payload) True world0)) = [Inr doc]
       \<and> messages_db (fst (message_send ''s1'' (Some empty_payload) world0))
           = messages_db world0 @ [doc]
       \<and> acks (snd (message_send ''s1'' (Some empty_payload) world0)) = []"
  by (rule empty_send_is_persisted [where sender = alice_id and rcps = "[]"])
    (simp_all add: empty_payload_def world0_def cast_example_ids)

text \<open>The whole outcome of \<open>send_message\<close> on the empty payload.\<close>

lemma empty_send_trace:
  "send_message ''s1'' (Some empty_payload) True world0
     = (world0\<lparr>messages_db := [empty_doc], next_oid := 2, writes := 1\<rparr>,
        [Emit Everyone ''message:new'' (MessageDoc empty_doc),
         Emit Everyone ''receive_message'' (MessageDoc empty_doc),
         Emit Everyone ''notification''
           (Notification ''new-message'' ''alice sent a message''
              (NewMessageData ''global'' (Some ''alice'')) 1000),
         Ack (Inr empty_doc)])"
  by (simp add: send_message_def create_from_payload_def Message_create_def db_attempt_def
      schema_valid_def send_message_emits_def empty_payload_def world0_def empty_doc_def
      js_trim_def startsWith_def Let_def cast_example_ids)

lemma create_stores:
  assumes "create_from_payload p w = (Inr doc, w1)"
  shows "doc \<in> set (messages_db w1)"
proof (cases "cast_opt (p_senderId p)")
  case None
  with assms show ?thesis
    by (simp add: create_from_payload_def Message_create_def)
next
  case (Some sender)
  note s = this
  show ?thesis
  proof (cases "cast_all (case p_recipients p of None \<Rightarrow> [] | Some rs \<Rightarrow> rs)")
    case None
    with assms s show ?thesis
      by (simp add: create_from_payload_def Message_create_def)
  next
    case (Some rs)
    with assms s show ?thesis
      by (auto simp: create_from_payload_def Message_create_def db_attempt_def Let_def
          split: if_splits list.splits)
  qed
qed

text \<open>
  Claim C2, amended. A \<open>send_message\<close> event that carries a callback is acknowledged
  exactly once: with the persisted message when \<open>Message.create\<close> succeeds, and with the
  error otherwise (an absent payload, a validation failure, a storage failure). Without
  a callback nothing is acknowledged, and \<open>message:send\<close> never acknowledges.
\<close>

theorem send_message_acknowledges_once:
  "acks (snd (send_message sid payload True w))
     = [case payload of None \<Rightarrow> Inl TypeError | Some p \<Rightarrow> fst (create_from_payload p w)]
   \<and> (\<forall>doc. acks (snd (send_message sid payload True w)) = [Inr doc]
          \<longrightarrow> doc \<in> set (messages_db (fst (send_message sid payload True w))))
   \<and> acks (snd (send_message sid payload False w)) = []
   \<and> acks (snd (message_send sid payload w)) = []"
proof -
  note stored = create_stores
  have 1: "acks (snd (send_message sid payload True w))
     = [case payload of None \<Rightarrow> Inl TypeError | Some p \<Rightarrow> fst (create_from_payload p w)]"
    by (auto simp: send_message_def acks_append acks_send_emits split: option.split prod.split sum.split)
  have 2: "doc \<in> set (messages_db (fst (send_message sid payload True w)))"
    if "acks (snd (send_message sid payload True w)) = [Inr doc]" for doc
    using that stored
    by (auto simp: send_message_def acks_append acks_send_emits split: option.splits prod.splits sum.splits)
  have 3: "acks (snd (send_message sid payload False w)) = []"
    by (auto simp: send_message_def acks_append acks_send_emits split: option.split prod.split sum.split)
  have 4: "acks (snd (message_send sid payload w)) = []"
    by (auto simp: message_send_def acks_append acks_send_emits sendNotification_def
        split: option.split prod.split sum.split)
  from 1 2 3 4 show ?thesis by blast
qed

lemma hello_created:
  "create_from_payload hello_payload world0
     = (Inr hello_doc, world0\<lparr>messages_db := [hello_doc], next_oid := 2, writes := 1\<rparr>)"
  by (simp add: create_from_payload_def Message_create_def db_attempt_def schema_valid_def
      hello_payload_def world0_def hello_doc_def js_trim_def is_space_def Let_def cast_example_ids)

lemma hello_rejected:
  "create_from_payload hello_payload (world0\<lparr>faults := [True]\<rparr>)
     = (Inl StorageError, world0)"
  by (simp add: create_from_payload_def Message_create_def db_attempt_def schema_valid_def
      hello_payload_def world0_def cast_example_ids)

theorem send_message_acknowledges_once_witness:
  "acks (snd (send_message ''s1'' (Some hello_payload) True world0)) = [Inr hello_doc]
   \<and> hello_doc \<in> set (messages_db (fst (send_message ''s1'' (Some hello_payload) True world0)))
   \<and> acks (snd (send_message ''s1'' (Some hello_payload) True (world0\<lparr>faults := [True]\<rparr>)))
       = [Inl StorageError]
   \<and> acks (snd (send_message ''s1'' None True world0)) = [Inl TypeError]"
proof -
  note t = send_message_acknowledges_once [of "''s1''" "Some hello_payload" world0]
  from t have a: "acks (snd (send_message ''s1'' (Some hello_payload) True world0)) = [Inr hello_doc]"
    by (simp add: hello_created)
  with t have b: "hello_doc \<in> set (messages_db (fst (send_message ''s1'' (Some hello_payload) True world0)))"
    by blast
  from send_message_acknowledges_once [of "''s1''" "Some hello_payload" "world0\<lparr>faults := [True]\<rparr>"]
  have c: "acks (snd (send_message ''s1'' (Some hello_payload) True (world0\<lparr>faults := [True]\<rparr>)))
       = [Inl StorageError]"
    by (simp add: hello_rejected)
  from send_message_acknowledges_once [of "''s1''" None world0]
  have d: "acks (snd (send_message ''s1'' None True world0)) = [Inl TypeError]"
    by simp
  from a b c d show ?thesis by blast
qed

text \<open>
  Claim C2 as stated fails: \<open>message:send\<close> persists the message and completes with no
  acknowledgement.
\<close>

theorem message_send_never_acknowledges:
  "length (acks (snd (message_send ''s1'' (Some hello_payload) world0))) \<noteq> 1
   \<and> messages_db (fst (message_send ''s1'' (Some hello_payload) world0)) = [hello_doc]"
  by (simp add: message_send_def hello_created acks_append acks_send_emits sendNotification_def)

subsection \<open>History on join\<close>

lemma find_or_create_user_ok:
  assumes "faults w = []" and "uname \<noteq> []"
  shows "\<exists>u w2. find_or_create_user uname sid w = (Inr (Some u), w2) \<and> faults w2 = []
           \<and> messages_db w2 = messages_db w"
  using assms
  by (auto simp: find_or_create_user_def User_findOne_def User_create_def db_attempt_def Let_def
      split: option.splits)

lemma resolve_user_ok:
  assumes "faults w = []"
    and "case userData of None \<Rightarrow> True
         | Some d \<Rightarrow> truthy (j_userId d) \<longrightarrow> cast_opt (j_userId d) \<noteq> None"
  shows "\<exists>found w2. resolve_user sid userData w = (Inr found, w2) \<and> faults w2 = []
           \<and> messages_db w2 = messages_db w"
proof -
  let ?uname = "case userData of None \<Rightarrow> None | Some d \<Rightarrow> j_username d"
  let ?uid = "case userData of None \<Rightarrow> None | Some d \<Rightarrow> j_userId d"
  have c: "truthy ?uid \<Longrightarrow> cast_oid (js_str ?uid) \<noteq> None"
    using assms(2) by (cases userData; cases ?uid) auto
  have "\<exists>found. (if truthy ?uid then User_findById (js_str ?uid) w else (Inr None, w))
           = (Inr found, w)"
  proof (cases "truthy ?uid")
    case True
    from c [OF this] obtain i where "cast_oid (js_str ?uid) = Some i"
      by blast
    with True assms(1) show ?thesis
      by (simp add: User_findById_def db_attempt_def)
  next
    case False
    thus ?thesis
      by simp
  qed
  then obtain found where
    f: "(if truthy ?uid then User_findById (js_str ?uid) w else (Inr None, w)) = (Inr found, w)"
    by blast
  show ?thesis
  proof (cases "found = None \<and> truthy ?uname")
    case True
    then have "js_str ?uname \<noteq> []"
      by (cases ?uname) auto
    from find_or_create_user_ok [OF assms(1) this, of sid] True f show ?thesis
      by (auto simp: resolve_user_def Let_def)
  next
    case False
    with f assms(1) show ?thesis
      by (auto simp: resolve_user_def Let_def)
  qed
qed

lemma bind_if_found_ok:
  assumes "faults w = []"
  shows "\<exists>bound w3. bind_if_found sid found w = (Inr bound, w3) \<and> faults w3 = []
           \<and> messages_db w3 = messages_db w"
  using assms
  by (auto simp: bind_if_found_def bind_user_def user_save_def db_attempt_def split: option.splits)

lemma user_join_history:
  assumes "faults w = []"
    and "case userData of None \<Rightarrow> True
         | Some d \<Rightarrow> truthy (j_userId d) \<longrightarrow> cast_opt (j_userId d) \<noteq> None"
  shows "history_pushed (snd (user_join sid userData w))
           = Some (history_query ''global'' (messages_db w))"
proof -
  from resolve_user_ok [OF assms, of sid] obtain found w2 where
    r: "resolve_user sid userData w = (Inr found, w2)" "faults w2 = []"
       "messages_db w2 = messages_db w"
    by blast
  from bind_if_found_ok [OF r(2), of sid found] obtain bound w3 where
    b: "bind_if_found sid found w2 = (Inr bound, w3)" "faults w3 = []"
       "messages_db w3 = messages_db w2"
    by blast
  show ?thesis
    by (simp add: user_join_def r b fetch_history_def db_attempt_def broadcastOnlineUsers_def)
qed

lemma room_join_history:
  assumes "faults w = []" and "truthy rid"
  shows "history_pushed (snd (room_join sid rid w))
           = Some (history_query (js_str rid) (messages_db w))"
  using assms
  by (simp add: room_join_def fetch_history_def db_attempt_def Let_def)

lemma sorted_take_le_drop:
  assumes "sorted (map f xs)" and "x \<in> set (take n xs)" and "y \<in> set (drop n xs)"
  shows "f x \<le> f y"
proof -
  have "sorted (map f (take n xs) @ map f (drop n xs))"
    using assms(1) by (simp flip: map_append)
  with assms(2,3) show ?thesis
    by (auto simp: sorted_append)
qed

lemma history_query_oldest:
  "\<exists>rest. set (history_query r msgs) \<union> set rest = set (Message_find r msgs)
       \<and> length (history_query r msgs) + length rest = length (Message_find r msgs)
       \<and> (\<forall>x \<in> set (history_query r msgs). \<forall>y \<in> set rest. createdAt x \<le> createdAt y)"
proof -
  let ?s = "sort_key createdAt (Message_find r msgs)"
  have "set (take 100 ?s) \<union> set (drop 100 ?s) = set (Message_find r msgs)"
    by (metis append_take_drop_id set_append set_sort)
  moreover have "length (take 100 ?s) + length (drop 100 ?s) = length (Message_find r msgs)"
    by simp
  moreover have "\<forall>x \<in> set (take 100 ?s). \<forall>y \<in> set (drop 100 ?s). createdAt x \<le> createdAt y"
    using sorted_take_le_drop [of createdAt ?s] by simp
  ultimately show ?thesis
    unfolding history_query_def limit_def sort_createdAt_asc_def by blast
qed

lemma history_query_sorted:
  "sorted (map createdAt (history_query r msgs))"
  "length (history_query r msgs) = min 100 (length (Message_find r msgs))"
  by (simp_all add: history_query_def limit_def sort_createdAt_asc_def sorted_wrt_take
      flip: take_map)


text \<open>
  A join whose user id spells no ObjectId ends in the handler's catch when
  \<open>User.findById\<close> rejects it: nobody is bound and nothing is sent, the history included.
\<close>

lemma user_join_cast_error:
  assumes "j_userId d = Some i" and "i \<noteq> []" and "cast_oid i = None"
  shows "user_join sid (Some d) w = (w, [])"
  using assms
  by (simp add: user_join_def resolve_user_def User_findById_def)

text \<open>
  Claim C3, as the code behaves. With no failing store operation, \<open>user:join\<close> (with a
  user id that is absent, empty or the spelling of an ObjectId) pushes
  \<open>history_query\<close> for \<open>global\<close> and \<open>room:join\<close> pushes it for the joined room. That
  history is ordered oldest-first and holds at most 100 messages of the room, and every
  message of the room that it leaves out was created no earlier than every message it
  holds: it is the oldest 100, not the most recent 100.
\<close>

theorem history_is_oldest_100:
  assumes "faults w = []" and "truthy rid"
    and "case userData of None \<Rightarrow> True
         | Some d \<Rightarrow> truthy (j_userId d) \<longrightarrow> cast_opt (j_userId d) \<noteq> None"
  shows "history_pushed (snd (user_join sid userData w))
           = Some (history_query ''global'' (messages_db w))
       \<and> history_pushed (snd (room_join sid rid w))
           = Some (history_query (js_str rid) (messages_db w))
       \<and> sorted (map createdAt (history_query r (messages_db w)))
       \<and> length (history_query r (messages_db w))
           = min 100 (length (Message_find r (messages_db w)))
       \<and> (\<exists>rest. set (history_query r (messages_db w)) \<union> set rest
                    = set (Message_find r (messages_db w))
              \<and> length (history_query r (messages_db w)) + length rest
                    = length (Message_find r (messages_db w))
              \<and> (\<forall>x \<in> set (history_query r (messages_db w)). \<forall>y \<in> set rest.
                    createdAt x \<le> createdAt y))"
  using user_join_history [OF assms(1,3)] room_join_history [OF assms(1,2)] history_query_sorted
    history_query_oldest
  by blast

lemma global_msgs_room:
  "Message_find ''global'' (map global_msg ns) = map global_msg ns"
  by (induction ns) (simp_all add: Message_find_def global_msg_def)

lemma global_msgs_times: "map createdAt (map global_msg ns) = ns"
  by (induction ns) (simp_all add: global_msg_def)

lemma world120_history:
  "history_query ''global'' (messages_db world120) = map global_msg [1..<101]"
proof -
  have "sort_key createdAt (map global_msg [1..<121]) = map global_msg [1..<121]"
    by (rule sort_key_id_if_sorted) (simp only: global_msgs_times sorted_upt)
  then show ?thesis
    by (simp add: world120_def history_query_def global_msgs_room sort_createdAt_asc_def
        limit_def take_map)
qed

text \<open>
  After 120 messages in \<open>global\<close> the push holds messages 1 to 100; message 120, the
  newest, is not in it.
\<close>

theorem history_is_oldest_100_witness:
  "history_pushed (snd (user_join ''s1'' None world120)) = Some (map global_msg [1..<101])
   \<and> history_pushed (snd (room_join ''s1'' (Some ''global'') world120))
       = Some (map global_msg [1..<101])
   \<and> global_msg 120 \<notin> set (map global_msg [1..<101])
   \<and> length (messages_db world120) = 120"
proof -
  have f: "faults world120 = []"
    by (simp add: world120_def world0_def)
  have t: "truthy (Some ''global'')"
    by simp
  have "createdAt (global_msg 120) \<notin> set (map createdAt (map global_msg [1..<101]))"
    unfolding global_msgs_times by (simp add: global_msg_def)
  then have n: "global_msg 120 \<notin> set (map global_msg [1..<101])"
    by auto
  have l: "length (messages_db world120) = 120"
    by (simp add: world120_def)
  have u: "case None of None \<Rightarrow> True
           | Some d \<Rightarrow> truthy (j_userId d) \<longrightarrow> cast_opt (j_userId d) \<noteq> None"
    by simp
  note h = history_is_oldest_100 [OF f t u, where sid = "''s1''"]
  from h have a: "history_pushed (snd (user_join ''s1'' None world120))
      = Some (history_query ''global'' (messages_db world120))"
    by blast
  from h have b: "history_pushed (snd (room_join ''s1'' (Some ''global'') world120))
      = Some (history_query ''global'' (messages_db world120))"
    by simp
  show ?thesis
    unfolding a b world120_history using n l by blast
qed

subsection \<open>Private messages\<close>

text \<open>
  Claim C9, as the code behaves. A private message that is persisted (its sender id and
  recipient id spell ObjectIds) is fanned out to the private room, which the sender's
  connection and the members of the recipient's room \<open>user:<id>\<close> have joined, and its \<open>private-message\<close> notification goes through \<open>sendNotification\<close>,
  that is \<open>io.emit\<close>: it reaches every connected connection, not the recipient only.
\<close>

theorem private_notification_is_global:
  assumes "cast_opt (pm_senderId p) = Some sender" and "cast_oid (pm_toUserId p) = Some rcp"
    and "truthy (pm_senderName p)"
    and "list_all (\<lambda>a. truthy (url a)) (case pm_attachments p of None \<Rightarrow> [] | Some as \<Rightarrow> as)"
    and "faults w = []"
  shows "delivered (fst (private_message sid p w)) ''notification'' (snd (private_message sid p w))
           = sockets w
       \<and> delivered (fst (private_message sid p w)) ''message:new'' (snd (private_message sid p w))
           = insert sid (rooms w (private_room_key (pm_senderId p) (Some (pm_toUserId p)))
                         \<union> rooms w (user_room (pm_toUserId p)))"
  using assms
  by (auto simp: private_message_def Message_create_def db_attempt_def schema_valid_def Let_def
      sendNotification_def)

text \<open>
  Alice on \<open>s1\<close> writes to Bob, whose only connection is \<open>s2\<close>: the notification also
  reaches \<open>s3\<close>, a connection bound to no identity.
\<close>

theorem private_notification_is_global_witness:
  "delivered (fst (private_message ''s1'' private_p world_joined)) ''notification''
     (snd (private_message ''s1'' private_p world_joined)) = {''s1'', ''s2'', ''s3''}
   \<and> live_connections world_joined bob_id = {''s2''}"
proof -
  have f: "faults world_joined = []"
    by (rule world_joined_facts(6))
  have h: "cast_opt (pm_senderId private_p) = Some alice_id"
    "cast_oid (pm_toUserId private_p) = Some bob_id"
    "truthy (pm_senderName private_p)"
    "list_all (\<lambda>a. truthy (url a))
       (case pm_attachments private_p of None \<Rightarrow> [] | Some as \<Rightarrow> as)"
    by (simp_all add: private_p_def cast_example_ids)
  from private_notification_is_global [OF h f, of "''s1''"]
  have "delivered (fst (private_message ''s1'' private_p world_joined)) ''notification''
     (snd (private_message ''s1'' private_p world_joined)) = sockets world_joined"
    by blast
  moreover have "live_connections world_joined bob_id = {''s2''}"
    by (rule world_joined_facts(3))
  ultimately show ?thesis
    by (simp add: world_joined_facts(5))
qed

subsection \<open>Presence\<close>

lemma resolve_user_by_id:
  assumes "j_userId d = Some i" and "cast_oid i = Some uid"
    and "find (\<lambda>u. user_id u = uid) (users_db w) = Some u" and "faults w = []"
  shows "resolve_user sid (Some d) w = (Inr (Some u), w)"
proof -
  from assms(2) have "i \<noteq> []"
    by (auto simp: cast_oid_def split: if_splits)
  with assms show ?thesis
    by (simp add: resolve_user_def User_findById_def db_attempt_def)
qed

lemma resolve_user_by_name:
  assumes "\<not> truthy (j_userId d)" and "j_username d = Some name" and "name \<noteq> []"
    and "find (\<lambda>u. username u = name) (users_db w) = Some u" and "faults w = []"
  shows "resolve_user sid (Some d) w = (Inr (Some u), w)"
  using assms
  by (simp add: resolve_user_def find_or_create_user_def User_findOne_def db_attempt_def)

text \<open>
  The state after \<open>user.save()\<close> of the user marked online on \<open>sid\<close>: the stored user
  is replaced, unless it has these values already.
\<close>

lemma bind_if_found_some:
  assumes "faults w = []"
  shows "bind_if_found sid (Some u) w =
           (Inr (Some (online u sid)),
            (if find (\<lambda>x. user_id x = user_id u) (users_db w) = Some (online u sid) then w
             else w\<lparr>users_db := map (\<lambda>x. if user_id x = user_id u then online u sid else x)
                                   (users_db w),
                     writes := Suc (writes w)\<rparr>)
             \<lparr>onlineUsers := AList.update sid (online u sid) (onlineUsers w),
              rooms := (rooms w)(user_room (user_id u) := insert sid (rooms w (user_room (user_id u))))\<rparr>)"
  using assms
  by (simp add: bind_if_found_def bind_user_def user_save_def db_attempt_def online_def)

lemma user_join_resolved:
  assumes "resolve_user sid userData w = (Inr (Some u), w)" and "faults w = []"
  shows "fst (user_join sid userData w) =
            (if find (\<lambda>x. user_id x = user_id u) (users_db w) = Some (online u sid) then w
             else w\<lparr>users_db := map (\<lambda>x. if user_id x = user_id u then online u sid else x)
                                   (users_db w),
                     writes := Suc (writes w)\<rparr>)
             \<lparr>onlineUsers := AList.update sid (online u sid) (onlineUsers w),
              rooms := (rooms w)(user_room (user_id u) :=
                         insert sid (rooms w (user_room (user_id u))))\<rparr>"
  using assms
  by (simp add: user_join_def bind_if_found_some fetch_history_def db_attempt_def)

lemma find_replace_user:
  "find (\<lambda>x. user_id x = uid) us = Some u \<Longrightarrow> user_id v = uid \<Longrightarrow>
   find (\<lambda>x. user_id x = uid) (map (\<lambda>x. if user_id x = uid then v else x) us) = Some v"
  by (induction us) (auto split: if_splits)

lemma count_after_update:
  "distinct (map fst al) \<Longrightarrow>
   length (filter Q (AList.update k v al))
     = length (filter (\<lambda>e. fst e \<noteq> k \<and> Q e) al) + (if Q (k, v) then 1 else 0)"
proof (induction al)
  case Nil
  then show ?case by simp
next
  case (Cons p ps)
  show ?case
  proof (cases "fst p = k")
    case True
    with Cons.prems have "\<forall>e \<in> set ps. fst e \<noteq> k"
      by (auto simp: image_iff)
    then have "filter (\<lambda>e. fst e \<noteq> k \<and> Q e) ps = filter Q ps"
      by (auto intro: filter_cong)
    with True show ?thesis by simp
  next
    case False
    with Cons show ?thesis by simp
  qed
qed

text \<open>
  Claim C8, amended. The presence map is keyed by connection. A join that resolves to a
  registered user (by id or by name), with no failing store operation, binds the joining
  connection to the identity and leaves the entry of every other connection as it was,
  also of a connection bound to the same identity: the online-users snapshot then lists
  the identity once for the joining connection and once for each other connection bound
  to it. The stored user has the joining connection as its \<open>socketId\<close>, the joining
  connection is added to the identity's room, and no connection is closed.
\<close>

theorem join_binds_only_own_connection:
  assumes "resolve_user sid userData w = (Inr (Some u), w)"
    and "find (\<lambda>x. user_id x = user_id u) (users_db w) = Some u"
    and "faults w = []"
    and "distinct (map fst (onlineUsers w))"
  shows "map_of (onlineUsers (fst (user_join sid userData w))) sid = Some (online u sid)
       \<and> (\<forall>s. s \<noteq> sid \<longrightarrow>
             map_of (onlineUsers (fst (user_join sid userData w))) s = map_of (onlineUsers w) s)
       \<and> length (filter (\<lambda>e. fst e = user_id u) (online_snapshot (fst (user_join sid userData w))))
           = Suc (length (filter (\<lambda>(s, x). s \<noteq> sid \<and> user_id x = user_id u) (onlineUsers w)))
       \<and> find (\<lambda>x. user_id x = user_id u) (users_db (fst (user_join sid userData w)))
           = Some (online u sid)
       \<and> sockets (fst (user_join sid userData w)) = sockets w
       \<and> rooms (fst (user_join sid userData w)) (user_room (user_id u))
           = insert sid (rooms w (user_room (user_id u)))"
proof -
  note j = user_join_resolved [OF assms(1,3)]
  have 1: "map_of (onlineUsers (fst (user_join sid userData w))) sid = Some (online u sid)"
    by (simp add: j update_conv')
  have 2: "\<forall>s. s \<noteq> sid \<longrightarrow>
             map_of (onlineUsers (fst (user_join sid userData w))) s = map_of (onlineUsers w) s"
    by (simp add: j update_conv')
  have "length (filter (\<lambda>e. fst e = user_id u) (online_snapshot (fst (user_join sid userData w))))
          = length (filter (\<lambda>(s, x). user_id x = user_id u)
                      (AList.update sid (online u sid) (onlineUsers w)))"
    by (simp add: j online_snapshot_def filter_map o_def case_prod_unfold)
  also have "\<dots> = Suc (length (filter (\<lambda>(s, x). s \<noteq> sid \<and> user_id x = user_id u) (onlineUsers w)))"
    by (simp add: count_after_update [OF assms(4)] online_def case_prod_unfold)
  finally have 3:
    "length (filter (\<lambda>e. fst e = user_id u) (online_snapshot (fst (user_join sid userData w))))
       = Suc (length (filter (\<lambda>(s, x). s \<noteq> sid \<and> user_id x = user_id u) (onlineUsers w)))" .
  have 4: "find (\<lambda>x. user_id x = user_id u) (users_db (fst (user_join sid userData w)))
           = Some (online u sid)"
    by (simp add: j find_replace_user [OF assms(2)] online_def)
  have 5: "sockets (fst (user_join sid userData w)) = sockets w"
    by (simp add: j)
  have 6: "rooms (fst (user_join sid userData w)) (user_room (user_id u))
           = insert sid (rooms w (user_room (user_id u)))"
    by (simp add: j)
  from 1 2 3 4 5 6 show ?thesis by blast
qed

lemma world_alice_facts:
  "find (\<lambda>u. user_id u = alice_id) (users_db world_alice) = Some (online alice ''s1'')"
  "faults world_alice = []"
  "onlineUsers world_alice = [(''s1'', online alice ''s1'')]"
  "sockets world_alice = {''s1'', ''s2'', ''s3''}"
  by (simp_all add: world_alice_eval world0_def online_def alice_def)

lemma world_rejoined_presence:
  "onlineUsers world_rejoined = [(''s1'', online alice ''s1''), (''s3'', online alice ''s3'')]"
proof -
  have r: "resolve_user ''s3'' (Some alice_rejoin) world_alice
             = (Inr (Some (online alice ''s1'')), world_alice)"
    by (rule resolve_user_by_id [OF _ cast_example_ids(1) world_alice_facts(1,2)])
      (simp add: alice_rejoin_def)
  from user_join_resolved [OF r world_alice_facts(2)]
  show ?thesis
    by (simp add: world_rejoined_def world_alice_facts(3) online_def)
qed

text \<open>
  Claim C8 as stated fails: after Alice has joined on \<open>s1\<close> and then on \<open>s3\<close>, both
  connections are registered for her and the snapshot lists her twice.
\<close>

theorem presence_lists_identity_twice:
  "map fst (onlineUsers world_rejoined) = [''s1'', ''s3'']
   \<and> online_snapshot world_rejoined = [(alice_id, ''alice'', True), (alice_id, ''alice'', True)]"
  by (simp add: online_snapshot_def world_rejoined_presence online_def alice_def)

theorem join_binds_only_own_connection_witness:
  "map_of (onlineUsers world_rejoined) ''s3'' = Some (online alice ''s3'')
   \<and> map_of (onlineUsers world_rejoined) ''s1'' = Some (online alice ''s1'')
   \<and> length (filter (\<lambda>e. fst e = alice_id) (online_snapshot world_rejoined)) = 2
   \<and> find (\<lambda>x. user_id x = alice_id) (users_db world_rejoined) = Some (online alice ''s3'')
   \<and> sockets world_rejoined = {''s1'', ''s2'', ''s3''}"
proof -
  have r: "resolve_user ''s3'' (Some alice_rejoin) world_alice
             = (Inr (Some (online alice ''s1'')), world_alice)"
    by (rule resolve_user_by_id [OF _ cast_example_ids(1) world_alice_facts(1,2)])
      (simp add: alice_rejoin_def)
  have d: "distinct (map fst (onlineUsers world_alice))"
    by (simp add: world_alice_facts(3))
  have u: "user_id (online alice ''s1'') = alice_id"
    by (simp add: online_def alice_def)
  have o: "online (online alice ''s1'') ''s3'' = online alice ''s3''"
    by (simp add: online_def)
  have f: "find (\<lambda>x. user_id x = user_id (online alice ''s1'')) (users_db world_alice)
             = Some (online alice ''s1'')"
    unfolding u by (rule world_alice_facts(1))
  note t = join_binds_only_own_connection [OF r f world_alice_facts(2) d,
      folded world_rejoined_def, unfolded o u]
  from t have 1: "map_of (onlineUsers world_rejoined) ''s3'' = Some (online alice ''s3'')"
    by blast
  from t have "map_of (onlineUsers world_rejoined) ''s1'' = map_of (onlineUsers world_alice) ''s1''"
    by simp
  then have 2: "map_of (onlineUsers world_rejoined) ''s1'' = Some (online alice ''s1'')"
    by (simp add: world_alice_facts(3))
  from t have "length (filter (\<lambda>e. fst e = alice_id) (online_snapshot world_rejoined))
      = Suc (length (filter (\<lambda>(s, x). s \<noteq> ''s3'' \<and> user_id x = alice_id) (onlineUsers world_alice)))"
    by blast
  then have 3: "length (filter (\<lambda>e. fst e = alice_id) (online_snapshot world_rejoined)) = 2"
    by (simp add: world_alice_facts(3) u)
  from t have 4: "find (\<lambda>x. user_id x = alice_id) (users_db world_rejoined)
      = Some (online alice ''s3'')"
    by blast
  from t have 5: "sockets world_rejoined = {''s1'', ''s2'', ''s3''}"
    by (simp add: world_alice_facts(4))
  from 1 2 3 4 5 show ?thesis by blast
qed

subsection \<open>The REST routes on the same inputs\<close>

text \<open>
  The REST route rejects the empty send that the socket handlers persist, and creates
  nothing.
\<close>

lemma rest_send_rejects_empty:
  "sendMessage empty_payload world0
     = (world0, Response 400 (MessageText ''Missing required message fields.''))"
  by (simp add: sendMessage_def empty_payload_def)

lemma rest_send_rejects_every_empty:
  assumes "\<not> truthy (p_content body)"
    and "p_attachments body = None \<or> p_attachments body = Some []"
  shows "sendMessage body w = (w, Response 400 (MessageText ''Missing required message fields.''))"
  using assms by (auto simp: sendMessage_def)

text \<open>
  The REST route, asked for 100 messages of \<open>global\<close> after 120 were sent, returns the
  most recent 100, oldest first.
\<close>

lemma rest_get_newest_100:
  "get_room_messages ''global'' (Some 100) None world120
     = (world120, Response 200 (MessageList (map global_msg [21..<121])))"
proof -
  have s: "sort_key createdAt (map global_msg [1..<121]) = map global_msg [1..<121]"
    by (rule sort_key_id_if_sorted) (simp only: global_msgs_times sorted_upt)
  have f: "faults world120 = []"
    by (simp add: world120_def world0_def)
  have m: "messages_db world120 = map global_msg [1..<121]"
    by (simp add: world120_def)
  have "limit 100 (sort_createdAt_desc (Message_find ''global'' (messages_db world120)))
          = rev (map global_msg [21..<121])"
    unfolding m global_msgs_room sort_createdAt_desc_def s
    by (simp add: limit_def take_rev drop_map)
  then show ?thesis
    by (simp add: get_room_messages_def db_attempt_def f)
qed

end
